theory Spec2Isabelle
  imports Complex_Main
begin

section \<open>Python values and built-in operations\<close>

text \<open>
  The repository consists of three Jupyter notebooks: the Qiskit Aqua chemistry example
  (excited states with Quantum Subspace Expansion), the pyQuil retargetability example and
  the Cirq routing example. Their code cells are scripts over Python's global namespace
  that import external packages, call them and print what they return.

  Values are Python's plain data and opaque references to library objects. Python
  floats are modelled by the reals they denote (their arithmetic, which rounds, is a
  parameter of the runtime below), numpy's
  one-dimensional arrays by \<open>VArray\<close>, and every object of an external package by a
  reference \<open>VObj\<close>, whose attributes and calls only the library can answer.
\<close>

datatype val =
    VNone
  | VBool bool
  | VInt int
  | VFloat real
  | VComplex complex
  | VStr string
  | VList "val list"
  | VTuple "val list"
  | VDict "(val \<times> val) list"
  | VArray "val list"
  | VRange int
  | VObj nat

text \<open>A raised exception, by the name of its class.\<close>

datatype error = Exception string

type_synonym 'a result = "error + 'a"

definition TypeError :: "'a result" where
  "TypeError = Inl (Exception ''TypeError'')"

definition IndexError :: "'a result" where
  "IndexError = Inl (Exception ''IndexError'')"

text \<open>Sequence indexing \<open>xs[i]\<close>. Python accepts \<open>-len(xs) \<le> i < len(xs)\<close>
  and reads position \<open>len(xs) + i\<close> for \<open>i < 0\<close>; any other index raises.\<close>

definition seq_index :: "val list \<Rightarrow> int \<Rightarrow> val result" where
  "seq_index xs i =
     (if 0 \<le> i \<and> i < int (length xs) then Inr (xs ! nat i)
      else if i < 0 \<and> - int (length xs) \<le> i then Inr (xs ! nat (int (length xs) + i))
      else IndexError)"

text \<open>The items of \<open>range(n)\<close>: \<open>0, ..., n - 1\<close>, none for \<open>n \<le> 0\<close>.\<close>

definition range_items :: "int \<Rightarrow> val list" where
  "range_items n = map VInt [0..n - 1]"

definition py_getitem :: "val \<Rightarrow> val \<Rightarrow> val result" where
  "py_getitem v k =
     (case v of
        VDict kvs \<Rightarrow>
          (case map_of kvs k of None \<Rightarrow> Inl (Exception ''KeyError'') | Some x \<Rightarrow> Inr x)
      | _ \<Rightarrow>
        (case k of
           VInt i \<Rightarrow>
             (case v of
                VList xs \<Rightarrow> seq_index xs i
              | VTuple xs \<Rightarrow> seq_index xs i
              | VArray xs \<Rightarrow> seq_index xs i
              | VRange n \<Rightarrow> seq_index (range_items n) i
              | _ \<Rightarrow> TypeError)
         | _ \<Rightarrow> TypeError))"

text \<open>The numbers: int, float, complex.\<close>

fun is_number :: "val \<Rightarrow> bool" where
  "is_number (VInt i) = True"
| "is_number (VFloat x) = True"
| "is_number (VComplex c) = True"
| "is_number _ = False"

datatype operator = Add | Sub | Mult | Pow

text \<open>All results of a list of results, or the first error.\<close>

fun collect :: "'a result list \<Rightarrow> 'a list result" where
  "collect [] = Inr []"
| "collect (r # rs) =
     (case r of Inl e \<Rightarrow> Inl e
      | Inr x \<Rightarrow> (case collect rs of Inl e \<Rightarrow> Inl e | Inr xs \<Rightarrow> Inr (x # xs)))"

text \<open>Unary minus of a number, which is exact. The notebooks negate no array.\<close>

fun py_neg :: "val \<Rightarrow> val result" where
  "py_neg (VInt i) = Inr (VInt (- i))"
| "py_neg (VFloat x) = Inr (VFloat (- x))"
| "py_neg (VComplex c) = Inr (VComplex (- c))"
| "py_neg _ = TypeError"

text \<open>The number \<open>len(v)\<close> returns.\<close>

fun py_len :: "val \<Rightarrow> int result" where
  "py_len (VList xs) = Inr (int (length xs))"
| "py_len (VTuple xs) = Inr (int (length xs))"
| "py_len (VArray xs) = Inr (int (length xs))"
| "py_len (VDict kvs) = Inr (int (length kvs))"
| "py_len (VStr s) = Inr (int (length s))"
| "py_len (VRange n) = Inr (max 0 n)"
| "py_len _ = TypeError"

text \<open>The items an iteration over a value yields.\<close>

fun py_iter :: "val \<Rightarrow> val list result" where
  "py_iter (VList xs) = Inr xs"
| "py_iter (VTuple xs) = Inr xs"
| "py_iter (VArray xs) = Inr xs"
| "py_iter (VDict kvs) = Inr (map fst kvs)"
| "py_iter (VStr s) = Inr (map (\<lambda>c. VStr [c]) s)"
| "py_iter (VRange n) = Inr (range_items n)"
| "py_iter _ = TypeError"

text \<open>\<open>range(n)\<close> and \<open>enumerate(xs)\<close>; the enumerate object is the list of the pairs
  it yields.\<close>

fun py_range :: "val \<Rightarrow> val result" where
  "py_range (VInt n) = Inr (VRange n)"
| "py_range _ = TypeError"

definition py_enumerate :: "val \<Rightarrow> val result" where
  "py_enumerate v =
     map_sum id (\<lambda>xs. VList (map (\<lambda>(i, x). VTuple [VInt (int i), x]) (enumerate 0 xs)))
       (py_iter v)"

text \<open>\<open>template.format(args)\<close> with automatically numbered fields \<open>{}\<close>, each replaced
  by the string of the next argument; arguments left over are ignored. Other uses of
  braces (escapes, field names, format specifications) do not occur in the notebooks
  and raise here.\<close>

fun str_format :: "string \<Rightarrow> string list \<Rightarrow> string result" where
  "str_format [] args = Inr []"
| "str_format [c] args =
     (if c = CHR ''{'' \<or> c = CHR ''}'' then Inl (Exception ''ValueError'') else Inr [c])"
| "str_format (c # d # rest) args =
     (if c = CHR ''{'' \<and> d = CHR ''}'' then
        (case args of
           [] \<Rightarrow> Inl (Exception ''IndexError'')
         | a # as \<Rightarrow> map_sum id ((@) a) (str_format rest as))
      else if c = CHR ''{'' \<or> c = CHR ''}'' then Inl (Exception ''ValueError'')
      else map_sum id ((#) c) (str_format (d # rest) args))"

text \<open>Attributes of plain data: \<open>.real\<close> of a number and \<open>.shape\<close> of an array.\<close>

definition data_attr :: "val \<Rightarrow> string \<Rightarrow> val result" where
  "data_attr v a =
     (case v of
        VInt i \<Rightarrow> (if a = ''real'' then Inr (VInt i) else Inl (Exception ''AttributeError''))
      | VFloat x \<Rightarrow> (if a = ''real'' then Inr (VFloat x) else Inl (Exception ''AttributeError''))
      | VComplex c \<Rightarrow>
          (if a = ''real'' then Inr (VFloat (Re c)) else Inl (Exception ''AttributeError''))
      | VArray xs \<Rightarrow>
          (if a = ''shape'' then Inr (VTuple [VInt (int (length xs))])
           else Inl (Exception ''AttributeError''))
      | _ \<Rightarrow> Inl (Exception ''AttributeError''))"

section \<open>The external libraries and the notebook kernel\<close>

text \<open>
  Everything an external package does is a request answered by the library, an
  uninterpreted function of the request and of the library's own state: importing a
  module, importing a name from a module, reading an attribute of a library object,
  calling a library object (positional and keyword arguments). The answer is a value or
  an exception.
\<close>

datatype request =
    Import string
  | ImportFrom string string
  | GetAttr val string
  | Call val "val list" "(string \<times> val) list"

text \<open>What a run does, in order: the requests with their answers, what is printed, and
  what a cell displays as its output value.\<close>

datatype event =
    Lib request "val result"
  | Printed "val list"
  | Displayed val

record 's kernel =
  globals :: "string \<Rightarrow> val option"
  lib_state :: 's
  events :: "event list"

text \<open>
  The runtime: the library; Python's conversion of a value that is not a string to a
  string (\<open>str\<close>), which for a float is its shortest decimal representation; and the
  arithmetic of the machine, which rounds and wraps and is left uninterpreted here.
  \<open>float_arith\<close> is Python's arithmetic on two numbers that are not both ints, and the
  negative power of two ints: its results are floats and complex numbers, rounded.
  \<open>numpy_arith\<close> is numpy's arithmetic on an element of an array and a number, or on two
  elements: floating-point elements round, integer elements have a fixed width.
\<close>

record 's runtime =
  library :: "request \<Rightarrow> 's \<Rightarrow> val result \<times> 's"
  str_of :: "val \<Rightarrow> string"
  float_arith :: "operator \<Rightarrow> val \<Rightarrow> val \<Rightarrow> val result"
  numpy_arith :: "operator \<Rightarrow> val \<Rightarrow> val \<Rightarrow> val result"

type_synonym ('s, 'a) exec = "'s runtime \<Rightarrow> 's kernel \<Rightarrow> 'a result \<times> 's kernel"

text \<open>A binary operator on two numbers. Python's ints are unbounded: their sums,
  differences, products and powers with an exponent \<open>\<ge> 0\<close> are exact. Everything else
  is the arithmetic of the machine.\<close>

definition num_binop :: "'s runtime \<Rightarrow> operator \<Rightarrow> val \<Rightarrow> val \<Rightarrow> val result" where
  "num_binop R opr a b =
     (case (a, b) of
        (VInt x, VInt y) \<Rightarrow>
          (case opr of
             Add \<Rightarrow> Inr (VInt (x + y))
           | Sub \<Rightarrow> Inr (VInt (x - y))
           | Mult \<Rightarrow> Inr (VInt (x * y))
           | Pow \<Rightarrow> (if 0 \<le> y then Inr (VInt (x ^ nat y)) else float_arith R Pow a b))
      | _ \<Rightarrow> (if is_number a \<and> is_number b then float_arith R opr a b else TypeError))"

text \<open>A binary operator in general: numpy applies it elementwise to two arrays of the
  same length and to an array and a number, \<open>+\<close> concatenates two lists and two
  strings. Other operands of an array (arrays of different lengths, sequences) do not
  occur in the notebooks and raise here.\<close>

definition py_binop :: "'s runtime \<Rightarrow> operator \<Rightarrow> val \<Rightarrow> val \<Rightarrow> val result" where
  "py_binop R opr a b =
     (case (a, b) of
        (VArray xs, VArray ys) \<Rightarrow>
          (if length xs = length ys
           then map_sum id VArray (collect (map (\<lambda>(x, y). numpy_arith R opr x y) (zip xs ys)))
           else Inl (Exception ''ValueError''))
      | (VArray xs, _) \<Rightarrow>
          (if is_number b
           then map_sum id VArray (collect (map (\<lambda>x. numpy_arith R opr x b) xs))
           else TypeError)
      | (_, VArray ys) \<Rightarrow>
          (if is_number a
           then map_sum id VArray (collect (map (\<lambda>y. numpy_arith R opr a y) ys))
           else TypeError)
      | (VList xs, VList ys) \<Rightarrow>
          (if opr = Add then Inr (VList (xs @ ys)) else TypeError)
      | (VStr s, VStr t) \<Rightarrow>
          (if opr = Add then Inr (VStr (s @ t)) else TypeError)
      | _ \<Rightarrow> num_binop R opr a b)"

definition ret :: "'a \<Rightarrow> ('s, 'a) exec" where
  "ret x R k = (Inr x, k)"

definition lift :: "'a result \<Rightarrow> ('s, 'a) exec" where
  "lift r R k = (r, k)"

text \<open>Sequencing: an exception ends the computation, nothing catches it.\<close>

definition bnd :: "('s, 'a) exec \<Rightarrow> ('a \<Rightarrow> ('s, 'b) exec) \<Rightarrow> ('s, 'b) exec" where
  "bnd m f R k = (case m R k of (Inl e, k') \<Rightarrow> (Inl e, k') | (Inr x, k') \<Rightarrow> f x R k')"

definition ask :: "request \<Rightarrow> ('s, val) exec" where
  "ask q R k =
     (case library R q (lib_state k) of
        (r, s') \<Rightarrow> (r, k\<lparr>lib_state := s', events := events k @ [Lib q r]\<rparr>))"

definition emit :: "event \<Rightarrow> ('s, unit) exec" where
  "emit ev R k = (Inr (), k\<lparr>events := events k @ [ev]\<rparr>)"

definition bind_name :: "string \<Rightarrow> val \<Rightarrow> ('s, unit) exec" where
  "bind_name x v R k = (Inr (), k\<lparr>globals := (globals k)(x \<mapsto> v)\<rparr>)"

primrec eval_all :: "('s, val) exec list \<Rightarrow> ('s, val list) exec" where
  "eval_all [] = ret []"
| "eval_all (e # es) = bnd e (\<lambda>v. bnd (eval_all es) (\<lambda>vs. ret (v # vs)))"

primrec eval_keywords :: "(string \<times> ('s, val) exec) list \<Rightarrow> ('s, (string \<times> val) list) exec" where
  "eval_keywords [] = ret []"
| "eval_keywords (ke # kes) =
     bnd (snd ke) (\<lambda>v. bnd (eval_keywords kes) (\<lambda>kvs. ret ((fst ke, v) # kvs)))"

section \<open>Expressions\<close>

text \<open>One combinator for each form of expression the notebooks use, named after the node
  of Python's syntax tree.\<close>

definition literal :: "val \<Rightarrow> ('s, val) exec" where
  "literal v = ret v"

text \<open>A name is looked up in the global namespace.\<close>

definition name :: "string \<Rightarrow> ('s, val) exec" where
  "name x R k =
     (case globals k x of
        Some v \<Rightarrow> (Inr v, k)
      | None \<Rightarrow> (Inl (Exception ''NameError''), k))"

definition py_getattr :: "val \<Rightarrow> string \<Rightarrow> ('s, val) exec" where
  "py_getattr v a = (case v of VObj _ \<Rightarrow> ask (GetAttr v a) | _ \<Rightarrow> lift (data_attr v a))"

definition attribute :: "('s, val) exec \<Rightarrow> string \<Rightarrow> ('s, val) exec" where
  "attribute e a = bnd e (\<lambda>v. py_getattr v a)"

definition subscript :: "('s, val) exec \<Rightarrow> ('s, val) exec \<Rightarrow> ('s, val) exec" where
  "subscript e i = bnd e (\<lambda>v. bnd i (\<lambda>j. lift (py_getitem v j)))"

definition binop :: "('s, val) exec \<Rightarrow> operator \<Rightarrow> ('s, val) exec \<Rightarrow> ('s, val) exec" where
  "binop l opr r = bnd l (\<lambda>a. bnd r (\<lambda>b R. lift (py_binop R opr a b) R))"

definition usub :: "('s, val) exec \<Rightarrow> ('s, val) exec" where
  "usub e = bnd e (\<lambda>v. lift (py_neg v))"

definition list_display :: "('s, val) exec list \<Rightarrow> ('s, val) exec" where
  "list_display es = bnd (eval_all es) (\<lambda>vs. ret (VList vs))"

text \<open>A dict display with string keys, \<open>{'k': e, ...}\<close>.\<close>

definition dict_display :: "(string \<times> ('s, val) exec) list \<Rightarrow> ('s, val) exec" where
  "dict_display kes =
     bnd (eval_keywords kes) (\<lambda>kvs. ret (VDict (map (\<lambda>(k, v). (VStr k, v)) kvs)))"

definition py_str :: "'s runtime \<Rightarrow> val \<Rightarrow> string" where
  "py_str R v = (case v of VStr s \<Rightarrow> s | _ \<Rightarrow> str_of R v)"

text \<open>Calling a value: a library object is called by the library, nothing else can be
  called.\<close>

definition py_call :: "val \<Rightarrow> val list \<Rightarrow> (string \<times> val) list \<Rightarrow> ('s, val) exec" where
  "py_call f vs kvs = (case f of VObj _ \<Rightarrow> ask (Call f vs kvs) | _ \<Rightarrow> lift TypeError)"

text \<open>\<open>f(args, key=value, ...)\<close>: the callee first, then the arguments from left to
  right, then the call.\<close>

definition call ::
  "('s, val) exec \<Rightarrow> ('s, val) exec list \<Rightarrow> (string \<times> ('s, val) exec) list \<Rightarrow> ('s, val) exec" where
  "call f args keywords =
     bnd f (\<lambda>fv. bnd (eval_all args) (\<lambda>vs. bnd (eval_keywords keywords) (\<lambda>kvs.
       py_call fv vs kvs)))"

text \<open>\<open>template.format(args)\<close> on a string: each argument is converted by \<open>str\<close>.\<close>

definition format_call :: "string \<Rightarrow> val list \<Rightarrow> ('s, val) exec" where
  "format_call s vs R = lift (map_sum id VStr (str_format s (map (py_str R) vs))) R"

text \<open>\<open>e.m(args, key=value, ...)\<close>: the method \<open>format\<close> of a string is interpreted,
  any other method is the attribute \<open>m\<close> of the value of \<open>e\<close>, called.\<close>

definition call_method ::
  "('s, val) exec \<Rightarrow> string \<Rightarrow> ('s, val) exec list \<Rightarrow> (string \<times> ('s, val) exec) list
     \<Rightarrow> ('s, val) exec" where
  "call_method e m args keywords =
     bnd e (\<lambda>v.
       case v of
         VStr s \<Rightarrow>
           (if m = ''format'' \<and> keywords = [] then bnd (eval_all args) (format_call s)
            else lift (Inl (Exception ''AttributeError'')))
       | _ \<Rightarrow> call (py_getattr v m) args keywords)"

text \<open>The built-in functions \<open>print\<close>, \<open>len\<close>, \<open>range\<close> and \<open>enumerate\<close>, which the
  notebooks call by these names and never rebind. \<open>print\<close> records its arguments as
  they are.\<close>

definition builtin :: "string \<Rightarrow> val list \<Rightarrow> ('s, val) exec" where
  "builtin f vs =
     (if f = ''print'' then bnd (emit (Printed vs)) (\<lambda>_. ret VNone)
      else
        (case vs of
           [v] \<Rightarrow>
             (if f = ''len'' then lift (map_sum id VInt (py_len v))
              else if f = ''range'' then lift (py_range v)
              else if f = ''enumerate'' then lift (py_enumerate v)
              else lift (Inl (Exception ''NameError'')))
         | _ \<Rightarrow> lift TypeError))"

definition call_builtin :: "string \<Rightarrow> ('s, val) exec list \<Rightarrow> ('s, val) exec" where
  "call_builtin f args = bnd (eval_all args) (builtin f)"

text \<open>Binding the targets of a \<open>for\<close> clause or of an assignment: one name takes the
  value, several names take the items of the value, which must be as many.\<close>

definition unpack :: "string list \<Rightarrow> val \<Rightarrow> (string \<times> val) list result" where
  "unpack targets v =
     (case targets of
        [x] \<Rightarrow> Inr [(x, v)]
      | _ \<Rightarrow>
        (case py_iter v of
           Inl e \<Rightarrow> Inl e
         | Inr items \<Rightarrow>
             (if length items = length targets then Inr (zip targets items)
              else Inl (Exception ''ValueError''))))"

text \<open>A list comprehension \<open>[elt for targets in iter]\<close>. The targets are local to the
  comprehension: they are bound over the globals while the element is evaluated, and
  the globals are as before afterwards.\<close>

definition with_targets :: "string list \<Rightarrow> val \<Rightarrow> ('s, val) exec \<Rightarrow> ('s, val) exec" where
  "with_targets targets v elt R k =
     (case unpack targets v of
        Inl e \<Rightarrow> (Inl e, k)
      | Inr bs \<Rightarrow>
          (case elt R (k\<lparr>globals := globals k ++ map_of (rev bs)\<rparr>) of
             (r, k') \<Rightarrow> (r, k'\<lparr>globals := globals k\<rparr>)))"

primrec comp_items :: "string list \<Rightarrow> val list \<Rightarrow> ('s, val) exec \<Rightarrow> ('s, val list) exec" where
  "comp_items targets [] elt = ret []"
| "comp_items targets (v # vs) elt =
     bnd (with_targets targets v elt) (\<lambda>y.
     bnd (comp_items targets vs elt) (\<lambda>ys. ret (y # ys)))"

definition listcomp :: "('s, val) exec \<Rightarrow> string list \<Rightarrow> ('s, val) exec \<Rightarrow> ('s, val) exec" where
  "listcomp elt targets iter =
     bnd iter (\<lambda>it. bnd (lift (py_iter it)) (\<lambda>items.
     bnd (comp_items targets items elt) (\<lambda>ys. ret (VList ys))))"

section \<open>Statements, cells and notebooks\<close>

text \<open>\<open>import m as x\<close>; \<open>import m\<close> is \<open>import m as m\<close> for a module without dots.\<close>

definition import_as :: "string \<Rightarrow> string \<Rightarrow> ('s, unit) exec" where
  "import_as m x = bnd (ask (Import m)) (\<lambda>v. bind_name x v)"

text \<open>\<open>from m import x, y, ...\<close>\<close>

primrec import_from :: "string \<Rightarrow> string list \<Rightarrow> ('s, unit) exec" where
  "import_from m [] = ret ()"
| "import_from m (x # xs) =
     bnd (ask (ImportFrom m x)) (\<lambda>v. bnd (bind_name x v) (\<lambda>_. import_from m xs))"

primrec bind_all :: "(string \<times> val) list \<Rightarrow> ('s, unit) exec" where
  "bind_all [] = ret ()"
| "bind_all (b # bs) = bnd (bind_name (fst b) (snd b)) (\<lambda>_. bind_all bs)"

text \<open>\<open>x = e\<close> and \<open>x, y = e\<close>\<close>

definition assign :: "string list \<Rightarrow> ('s, val) exec \<Rightarrow> ('s, unit) exec" where
  "assign targets e = bnd e (\<lambda>v. bnd (lift (unpack targets v)) bind_all)"

text \<open>An expression as a statement: its value is dropped.\<close>

definition expr :: "('s, val) exec \<Rightarrow> ('s, unit) exec" where
  "expr e = bnd e (\<lambda>_. ret ())"

text \<open>The expression that ends a cell: the notebook displays its value unless it is
  None.\<close>

definition display :: "('s, val) exec \<Rightarrow> ('s, unit) exec" where
  "display e = bnd e (\<lambda>v. if v = VNone then ret () else emit (Displayed v))"

text \<open>The statement \<open>x.append(e)\<close> for a variable \<open>x\<close>. When \<open>x\<close> holds a list,
  the list grows by the value of \<open>e\<close> (in the notebooks no other name refers to the same
  list); otherwise it is the call of the attribute \<open>append\<close> of whatever \<open>x\<close> holds.\<close>

definition append_stmt :: "string \<Rightarrow> ('s, val) exec \<Rightarrow> ('s, unit) exec" where
  "append_stmt x e R k =
     (case globals k x of
        Some (VList xs) \<Rightarrow> bnd e (\<lambda>v. bind_name x (VList (xs @ [v]))) R k
      | _ \<Rightarrow> expr (call_method (name x) ''append'' [e] []) R k)"

text \<open>A block of statements, in order.\<close>

primrec block :: "('s, unit) exec list \<Rightarrow> ('s, unit) exec" where
  "block [] = ret ()"
| "block (c # cs) = bnd c (\<lambda>_. block cs)"

text \<open>\<open>for x in iter: body\<close>\<close>

primrec for_items :: "string \<Rightarrow> val list \<Rightarrow> ('s, unit) exec \<Rightarrow> ('s, unit) exec" where
  "for_items x [] body = ret ()"
| "for_items x (v # vs) body =
     bnd (bind_name x v) (\<lambda>_. bnd body (\<lambda>_. for_items x vs body))"

definition for_stmt :: "string \<Rightarrow> ('s, val) exec \<Rightarrow> ('s, unit) exec list \<Rightarrow> ('s, unit) exec" where
  "for_stmt x iter body =
     bnd iter (\<lambda>it. bnd (lift (py_iter it)) (\<lambda>items. for_items x items (block body)))"

text \<open>A cell is a block of statements. Running a notebook runs its cells in order and
  stops at the first exception.\<close>

definition run_cell :: "('s, unit) exec list \<Rightarrow> ('s, unit) exec" where
  "run_cell c = block c"

definition run_all :: "('s, unit) exec list list \<Rightarrow> ('s, unit) exec" where
  "run_all cells = block (map run_cell cells)"

section \<open>The notebooks\<close>

abbreviation str :: "string \<Rightarrow> ('s, val) exec" where
  "str s \<equiv> literal (VStr s)"

abbreviation num :: "int \<Rightarrow> ('s, val) exec" where
  "num i \<equiv> literal (VInt i)"

abbreviation flt :: "real \<Rightarrow> ('s, val) exec" where
  "flt x \<equiv> literal (VFloat x)"

subsection \<open>Chemistry with Qiskit Aqua: excited states with Quantum Subspace Expansion\<close>

definition qse_import :: "('s, unit) exec list" where
  "qse_import =
     [import_as ''qiskit'' ''qiskit'',
      import_as ''pytket'' ''pytket'']"

text \<open>Configure experiment. The LiH string is commented out in the source.\<close>

definition qse_configure :: "('s, unit) exec list" where
  "qse_configure =
     [assign [''bond_length''] (flt (7 / 10)),
      assign [''base_molecule_str''] (str ''H .0 .0 .0; H .0 .0 {}''),
      assign [''charge''] (num 0),
      assign [''spin''] (num 0),
      assign [''basis''] (str ''sto3g'')]"

definition qse_backend :: "('s, unit) exec list" where
  "qse_backend =
     [assign [''backend_name''] (str ''statevector_simulator''),
      assign [''backend'']
        (call_method (attribute (name ''qiskit'') ''Aer'') ''get_backend''
           [name ''backend_name''] [])]"

text \<open>t|ket> compilation\<close>

definition qse_compilation :: "('s, unit) exec list" where
  "qse_compilation =
     [import_from ''qiskit_aqua'' [''QuantumInstance''],
      import_from ''qiskit.transpiler'' [''PassManager''],
      import_from ''pytket.qiskit'' [''TketPass''],
      assign [''pass_manager''] (call (name ''PassManager'') [] []),
      assign [''tk_pass''] (call (name ''TketPass'') [name ''backend''] []),
      append_stmt ''pass_manager'' (name ''tk_pass''),
      assign [''quantum_instance'']
        (call (name ''QuantumInstance'') [name ''backend'']
           [(''pass_manager'', name ''pass_manager'')])]"

text \<open>Perform classical calculation\<close>

definition qse_classical :: "('s, unit) exec list" where
  "qse_classical =
     [import_from ''qiskit_aqua_chemistry.drivers'' [''ConfigurationManager''],
      assign [''cfg_mgr''] (call (name ''ConfigurationManager'') [] []),
      assign [''driver'']
        (call_method (name ''cfg_mgr'') ''get_driver_instance'' [str ''PYSCF''] []),
      assign [''pyscf_cfg'']
        (dict_display
           [(''atom'', call_method (name ''base_molecule_str'') ''format'' [name ''bond_length''] []),
            (''unit'', str ''Angstrom''),
            (''charge'', name ''charge''),
            (''spin'', name ''spin''),
            (''basis'', name ''basis'')]),
      assign [''molecule'']
        (call_method (name ''driver'') ''run''
           [dict_display [(''properties'', name ''pyscf_cfg'')]] []),
      expr (call_builtin ''print''
        [str ''Molecular repulsion energy: '',
         attribute (name ''molecule'') ''nuclear_repulsion_energy''])]"

text \<open>Set up initial state and variational form\<close>

definition qse_var_form :: "('s, unit) exec list" where
  "qse_var_form =
     [import_from ''qiskit_aqua_chemistry'' [''FermionicOperator''],
      import_from ''qiskit_aqua_chemistry.aqua_extensions.components.initial_states''
        [''HartreeFock''],
      import_from ''qiskit_aqua_chemistry.aqua_extensions.components.variational_forms''
        [''UCCSD''],
      assign [''n_qubits'']
        (subscript (attribute (attribute (name ''molecule'') ''one_body_integrals'') ''shape'')
           (num 0)),
      assign [''n_electrons'']
        (binop
           (binop (attribute (name ''molecule'') ''num_alpha'') Add
                  (attribute (name ''molecule'') ''num_beta''))
           Sub (attribute (name ''molecule'') ''molecular_charge'')),
      assign [''ferOp'']
        (call (name ''FermionicOperator'') []
           [(''h1'', attribute (name ''molecule'') ''one_body_integrals''),
            (''h2'', attribute (name ''molecule'') ''two_body_integrals'')]),
      assign [''qubitOp'']
        (call_method (name ''ferOp'') ''mapping'' []
           [(''map_type'', str ''JORDAN_WIGNER''),
            (''threshold'', flt (1 / 100000000))]),
      expr (call_method (name ''qubitOp'') ''chop'' [binop (num 10) Pow (usub (num 10))] []),
      assign [''initial_hf'']
        (call (name ''HartreeFock'') []
           [(''num_qubits'', name ''n_qubits''),
            (''num_orbitals'', name ''n_qubits''),
            (''qubit_mapping'', str ''jordan_wigner''),
            (''two_qubit_reduction'', literal (VBool False)),
            (''num_particles'', name ''n_electrons'')]),
      assign [''var_form'']
        (call (name ''UCCSD'') []
           [(''num_qubits'', name ''n_qubits''),
            (''num_orbitals'', name ''n_qubits''),
            (''num_particles'', name ''n_electrons''),
            (''depth'', num 1),
            (''initial_state'', name ''initial_hf''),
            (''qubit_mapping'', str ''jordan_wigner'')])]"

text \<open>Use VQE to find ground state\<close>

definition qse_vqe :: "('s, unit) exec list" where
  "qse_vqe =
     [import_from ''qiskit_aqua.components.optimizers'' [''L_BFGS_B''],
      import_from ''qiskit_aqua.algorithms'' [''VQE''],
      assign [''number_amplitudes'']
        (binop
           (call_builtin ''len'' [attribute (name ''var_form'') ''_single_excitations''])
           Add
           (call_builtin ''len'' [attribute (name ''var_form'') ''_double_excitations''])),
      assign [''amplitudes_0''] (list_display []),
      for_stmt ''i'' (call_builtin ''range'' [name ''number_amplitudes''])
        [append_stmt ''amplitudes_0'' (flt (1 / 100000))],
      assign [''optimizer''] (call (name ''L_BFGS_B'') [] []),
      expr (call_method (name ''optimizer'') ''set_options'' []
        [(''maxfun'', num 1000), (''factr'', num 10), (''iprint'', num 10)]),
      assign [''vqe_algorithm'']
        (call (name ''VQE'') []
           [(''operator'', name ''qubitOp''),
            (''operator_mode'', str ''matrix''),
            (''var_form'', name ''var_form''),
            (''optimizer'', name ''optimizer''),
            (''initial_point'', name ''amplitudes_0'')]),
      assign [''results'']
        (call_method (name ''vqe_algorithm'') ''run'' [name ''quantum_instance''] []),
      assign [''eigval''] (subscript (subscript (name ''results'') (str ''eigvals'')) (num 0)),
      assign [''gs_energy'']
        (binop (attribute (name ''eigval'') ''real'') Add
               (attribute (name ''molecule'') ''nuclear_repulsion_energy'')),
      expr (call_builtin ''print''
        [call_method (str ''GS Minimum value: {}'') ''format'' [name ''gs_energy''] []]),
      expr (call_builtin ''print''
        [call_method (str ''GS Parameters: {}'') ''format''
           [subscript (name ''results'') (str ''opt_params'')] []]),
      assign [''opti_amplitudes''] (subscript (name ''results'') (str ''opt_params''))]"

text \<open>Use QSE to find excited states from ground state\<close>

definition qse_qse :: "('s, unit) exec list" where
  "qse_qse =
     [import_from ''pytket.chemistry'' [''QseMatrices'', ''QSE''],
      assign [''qubitOp'']
        (call_method (name ''ferOp'') ''mapping'' []
           [(''map_type'', str ''JORDAN_WIGNER''),
            (''threshold'', flt (1 / 100000000))]),
      assign [''n_qubits''] (attribute (name ''qubitOp'') ''num_qubits''),
      expr (call_method (name ''qubitOp'') ''chop'' [binop (num 10) Pow (usub (num 10))] []),
      assign [''matrix_terms'']
        (call (name ''QseMatrices'') [name ''qubitOp'', name ''n_qubits''] []),
      assign [''qse_algorithm'']
        (call (name ''QSE'') [name ''matrix_terms'', str ''matrix'', name ''var_form'']
           [(''opt_init_point'', name ''opti_amplitudes'')]),
      assign [''energies'']
        (subscript (call_method (name ''qse_algorithm'') ''run'' [name ''quantum_instance''] [])
           (str ''eigvals'')),
      expr (call_builtin ''print''
        [str ''Excited State Energies: '',
         binop (name ''energies'') Add
               (attribute (name ''molecule'') ''nuclear_repulsion_energy'')])]"

definition qse_notebook :: "('s, unit) exec list list" where
  "qse_notebook =
     [qse_import, qse_configure, qse_backend, qse_compilation, qse_classical,
      qse_var_form, qse_vqe, qse_qse]"

subsection \<open>pyQuil retargetability example\<close>

abbreviation imag_unit :: "('s, val) exec" where
  "imag_unit \<equiv> literal (VComplex (Complex 0 1))"

definition pyquil_state_preparation :: "('s, unit) exec list" where
  "pyquil_state_preparation =
     [import_from ''grove.alpha.arbitrary_state.arbitrary_state'' [''create_arbitrary_state''],
      import_as ''numpy'' ''np'',
      assign [''target_state'']
        (call_method (name ''np'') ''array''
           [list_display
              [flt (1 / 2),
               binop imag_unit Mult (flt (1 / 2)),
               binop (usub imag_unit) Mult (flt (1 / 2)),
               binop imag_unit Mult (flt (1 / 2))]] []),
      assign [''quil_circ''] (call (name ''create_arbitrary_state'') [name ''target_state''] []),
      expr (call_builtin ''print'' [name ''quil_circ''])]"

definition pyquil_convert :: "('s, unit) exec list" where
  "pyquil_convert =
     [import_from ''pytket.pyquil'' [''pyquil_to_tk''],
      assign [''tk_circ''] (call (name ''pyquil_to_tk'') [name ''quil_circ''] [])]"

definition pyquil_optimise :: "('s, unit) exec list" where
  "pyquil_optimise =
     [import_from ''pytket._circuit'' [''optimise_pre_routing''],
      expr (call (name ''optimise_pre_routing'') [name ''tk_circ''] []),
      display (call_method (name ''tk_circ'') ''apply_boundary_map''
        [list_display [num 1, num 0]] [])]"

definition pyquil_simulate :: "('s, unit) exec list" where
  "pyquil_simulate =
     [import_from ''pytket.qiskit'' [''tk_to_dagcircuit''],
      assign [''dag_circ''] (call (name ''tk_to_dagcircuit'') [name ''tk_circ''] []),
      import_from ''qiskit.converters'' [''dag_to_circuit''],
      assign [''qis_circ''] (call (name ''dag_to_circuit'') [name ''dag_circ''] []),
      import_from ''qiskit'' [''BasicAer'', ''execute''],
      assign [''backend'']
        (call_method (name ''BasicAer'') ''get_backend'' [str ''unitary_simulator''] []),
      assign [''job''] (call (name ''execute'') [name ''qis_circ'', name ''backend''] []),
      assign [''matrix'']
        (call_method (call_method (name ''job'') ''result'' [] []) ''get_unitary''
           [name ''qis_circ''] []),
      expr (call_builtin ''print'' [name ''matrix''])]"

definition pyquil_notebook :: "('s, unit) exec list list" where
  "pyquil_notebook =
     [pyquil_state_preparation, pyquil_convert, pyquil_optimise, pyquil_simulate]"

subsection \<open>Cirq routing example\<close>

definition cirq_import :: "('s, unit) exec list" where
  "cirq_import =
     [import_as ''cirq'' ''cirq'',
      import_from ''pytket._routing'' [''SquareGrid'', ''route''],
      import_from ''pytket.cirq'' [''get_grid_qubits'', ''cirq_to_tk'', ''tk_to_cirq'']]"

definition cirq_grid :: "('s, unit) exec list" where
  "cirq_grid =
     [assign [''arc''] (call (name ''SquareGrid'') [num 3, num 3] []),
      assign [''qubits'']
        (call (name ''get_grid_qubits'') [name ''arc'', call_builtin ''range'' [num 9]] [])]"

abbreviation qubit :: "int \<Rightarrow> ('s, val) exec" where
  "qubit i \<equiv> subscript (name ''qubits'') (num i)"

definition cirq_circuit :: "('s, unit) exec list" where
  "cirq_circuit =
     [assign [''circuit'']
        (call_method (attribute (name ''cirq'') ''Circuit'') ''from_ops''
           [call_method (name ''cirq'') ''H'' [qubit 0] [],
            call_method (name ''cirq'') ''X'' [qubit 1] [],
            call_method (name ''cirq'') ''CNOT'' [qubit 0, qubit 4] [],
            call_method (name ''cirq'') ''Y'' [qubit 2] [],
            call_method (name ''cirq'') ''CNOT'' [qubit 2, qubit 4] [],
            call_method (name ''cirq'') ''CNOT'' [qubit 3, qubit 4] [],
            call_method (name ''cirq'') ''Y'' [qubit 3] [],
            call_method (name ''cirq'') ''CNOT'' [qubit 3, qubit 5] [],
            call_method (name ''cirq'') ''Z'' [qubit 4] []] []),
      display (name ''circuit'')]"

text \<open>The reordering of the circuit boundary is commented out in the source.\<close>

definition cirq_route :: "('s, unit) exec list" where
  "cirq_route =
     [assign [''tk_circ''] (call (name ''cirq_to_tk'') [name ''circuit''] []),
      assign [''tk_routed'', ''qmap''] (call (name ''route'') [name ''tk_circ'', name ''arc''] []),
      expr (call_builtin ''print'' [name ''qmap'']),
      assign [''final_qubits'']
        (listcomp (subscript (name ''qubits'') (name ''j'')) [''i'', ''j'']
           (call_builtin ''enumerate'' [subscript (name ''qmap'') (num 0)])),
      display (call (name ''tk_to_cirq'') [name ''tk_routed'', name ''final_qubits''] [])]"

definition cirq_empty :: "('s, unit) exec list" where
  "cirq_empty = []"

definition cirq_notebook :: "('s, unit) exec list list" where
  "cirq_notebook = [cirq_import, cirq_grid, cirq_circuit, cirq_route, cirq_empty]"

section \<open>Exceptions of the library\<close>

text \<open>The exception a result carries, if any.\<close>

definition raised :: "'a result \<Rightarrow> error option" where
  "raised r = (case r of Inl e \<Rightarrow> Some e | Inr _ \<Rightarrow> None)"

text \<open>A list of events in which nothing follows a request that the library answered with
  an exception, and that exception is the outcome \<open>r\<close> of the whole computation.\<close>

fun uncaught :: "error option \<Rightarrow> event list \<Rightarrow> bool" where
  "uncaught r [] = True"
| "uncaught r (ev # evs) =
     (case ev of
        Lib q (Inl e) \<Rightarrow> evs = [] \<and> r = Some e
      | _ \<Rightarrow> uncaught r evs)"

text \<open>A computation lets the exceptions of the library through: whatever the library and
  the kernel it starts from, the events it adds are \<open>uncaught\<close> for its outcome.\<close>

definition propagates :: "('s, 'a) exec \<Rightarrow> bool" where
  "propagates m =
     (\<forall>R k r k'. m R k = (r, k') \<longrightarrow>
        (\<exists>new. events k' = events k @ new \<and> uncaught (raised r) new))"

section \<open>Where the values of a run come from\<close>

text \<open>The literals in the code of each notebook.\<close>

definition qse_literals :: "val list" where
  "qse_literals =
     [VFloat (7 / 10), VStr ''H .0 .0 .0; H .0 .0 {}'', VInt 0, VStr ''sto3g'',
      VStr ''statevector_simulator'', VStr ''PYSCF'', VStr ''Angstrom'',
      VStr ''Molecular repulsion energy: '', VStr ''JORDAN_WIGNER'',
      VFloat (1 / 100000000), VInt 10, VStr ''jordan_wigner'', VBool False, VInt 1,
      VFloat (1 / 100000), VInt 1000, VStr ''matrix'', VStr ''eigvals'',
      VStr ''GS Minimum value: {}'', VStr ''GS Parameters: {}'', VStr ''opt_params'',
      VStr ''Excited State Energies: '']"

definition pyquil_literals :: "val list" where
  "pyquil_literals =
     [VFloat (1 / 2), VComplex (Complex 0 1), VInt 1, VInt 0, VStr ''unitary_simulator'']"

definition cirq_literals :: "val list" where
  "cirq_literals = [VInt 3, VInt 9, VInt 0, VInt 1, VInt 4, VInt 2, VInt 5]"

text \<open>The values a request hands to the library (the object asked, the callee, the
  arguments), the values an event shows, and the values the library returned in a list
  of events.\<close>

fun request_values :: "request \<Rightarrow> val list" where
  "request_values (Import m) = []"
| "request_values (ImportFrom m x) = []"
| "request_values (GetAttr v a) = [v]"
| "request_values (Call f vs kvs) = f # vs @ map snd kvs"

fun event_values :: "event \<Rightarrow> val list" where
  "event_values (Lib q r) = request_values q"
| "event_values (Printed vs) = vs"
| "event_values (Displayed v) = [v]"

definition answered :: "event list \<Rightarrow> val list" where
  "answered evs = concat (map (\<lambda>ev. case ev of Lib q (Inr v) \<Rightarrow> [v] | _ \<Rightarrow> []) evs)"

text \<open>A value that is in \<open>base\<close> as it is, or is a list or a dict of such values, or is a
  string (every string is counted as one built from literals).\<close>

fun built :: "val list \<Rightarrow> val \<Rightarrow> bool" where
  "built base (VList vs) = (VList vs \<in> set base \<or> list_all (built base) vs)"
| "built base (VDict kvs) = (VDict kvs \<in> set base \<or> list_all (built base) (map snd kvs))"
| "built base (VStr s) = True"
| "built base v = (v \<in> set base)"

text \<open>The values that Python's built-in operations give from the values in \<open>B\<close>: the
  operations are those of the expressions and statements above (subscripts, binary
  operators and unary minus, attributes of plain data, \<open>len\<close>, \<open>range\<close>, \<open>enumerate\<close>,
  iteration and unpacking, list and dict displays, \<open>str.format\<close>) and the constant
  \<open>None\<close>.\<close>

inductive derived :: "'s runtime \<Rightarrow> val set \<Rightarrow> val \<Rightarrow> bool" for R :: "'s runtime" and B :: "val set" where
  base: "v \<in> B \<Longrightarrow> derived R B v"
| none: "derived R B VNone"
| getitem: "derived R B c \<Longrightarrow> derived R B i \<Longrightarrow> py_getitem c i = Inr v \<Longrightarrow> derived R B v"
| binop: "derived R B a \<Longrightarrow> derived R B b \<Longrightarrow> py_binop R opr a b = Inr v \<Longrightarrow> derived R B v"
| neg: "derived R B a \<Longrightarrow> py_neg a = Inr v \<Longrightarrow> derived R B v"
| attr: "derived R B a \<Longrightarrow> data_attr a x = Inr v \<Longrightarrow> derived R B v"
| len: "derived R B a \<Longrightarrow> py_len a = Inr n \<Longrightarrow> derived R B (VInt n)"
| range: "derived R B a \<Longrightarrow> py_range a = Inr v \<Longrightarrow> derived R B v"
| enumerate: "derived R B a \<Longrightarrow> py_enumerate a = Inr v \<Longrightarrow> derived R B v"
| item: "derived R B a \<Longrightarrow> py_iter a = Inr items \<Longrightarrow> v \<in> set items \<Longrightarrow> derived R B v"
| list_of: "list_all (derived R B) vs \<Longrightarrow> derived R B (VList vs)"
| dict_of:
    "list_all (derived R B) (map snd kvs) \<Longrightarrow>
     derived R B (VDict (map (\<lambda>(k, v). (VStr k, v)) kvs))"
| format:
    "derived R B (VStr s) \<Longrightarrow> list_all (derived R B) vs \<Longrightarrow>
     str_format s (map (py_str R) vs) = Inr t \<Longrightarrow> derived R B (VStr t)"

text \<open>What is derived in a kernel: from the literals \<open>B\<close> and the values the library has
  returned so far.\<close>

definition known :: "'s runtime \<Rightarrow> val set \<Rightarrow> 's kernel \<Rightarrow> val \<Rightarrow> bool" where
  "known R B k = derived R (B \<union> set (answered (events k)))"

text \<open>In a list of events, the values of each event are derived from the literals and
  from what the library returned before that event.\<close>

definition traced :: "'s runtime \<Rightarrow> val set \<Rightarrow> event list \<Rightarrow> bool" where
  "traced R B evs =
     (\<forall>i < length evs. list_all (derived R (B \<union> set (answered (take i evs))))
        (event_values (evs ! i)))"

text \<open>A kernel is sound when the values of its variables are derived and its events are
  traced.\<close>

definition sound :: "'s runtime \<Rightarrow> val set \<Rightarrow> 's kernel \<Rightarrow> bool" where
  "sound R B k =
     ((\<forall>x v. globals k x = Some v \<longrightarrow> known R B k v) \<and> traced R B (events k))"

text \<open>A computation keeps kernels sound: run from a sound kernel in which the values
  \<open>ctx\<close> are derived, it ends in a sound kernel with more events, and the values
  \<open>vals y\<close> of its result \<open>y\<close> are derived there.\<close>

definition keeps :: "val set \<Rightarrow> val list \<Rightarrow> ('a \<Rightarrow> val list) \<Rightarrow> ('s, 'a) exec \<Rightarrow> bool" where
  "keeps B ctx vals m =
     (\<forall>R k r k'. sound R B k \<longrightarrow> list_all (known R B k) ctx \<longrightarrow> m R k = (r, k') \<longrightarrow>
        sound R B k' \<and> (\<exists>new. events k' = events k @ new) \<and>
        (\<forall>y. r = Inr y \<longrightarrow> list_all (known R B k') (vals y)))"

section \<open>A scripted library\<close>

text \<open>
  For concrete runs the library answers from a script: its state is the list of the
  answers it still has to give, and each request takes the next one. The scripts below
  hold the answers of a run on the H2 molecule (two electrons, four spin orbitals, two
  single and one double excitation) and of the routing run whose output the Cirq notebook
  shows.
\<close>

definition scripted :: "request \<Rightarrow> val result list \<Rightarrow> val result \<times> val result list" where
  "scripted q answers =
     (case answers of
        [] \<Rightarrow> (Inl (Exception ''StopIteration''), [])
      | a # rest \<Rightarrow> (a, rest))"

abbreviation nuclear_repulsion :: val where
  "nuclear_repulsion \<equiv> VFloat (7559674441714287 / 10000000000000000)"

text \<open>The strings and the sums of the scripted runs, as Python gives them: the sums are
  doubles, written by their shortest decimal representation, and are not the exact sums
  of their operands.\<close>

definition demo_str :: "val \<Rightarrow> string" where
  "demo_str v =
     (if v = VFloat (7 / 10) then ''0.7''
      else if v = VFloat (- 1134032555828571 / 1000000000000000) then ''-1.134032555828571''
      else ''<value>'')"

definition demo_sums :: "(val \<times> val) list" where
  "demo_sums =
     [(VFloat (- 189 / 100), VFloat (- 1134032555828571 / 1000000000000000)),
      (VFloat (- 5 / 4), VFloat (- 4940325558285713 / 10000000000000000)),
      (VFloat (- 9 / 10), VFloat (- 14403255582857133 / 100000000000000000))]"

definition demo_arith :: "operator \<Rightarrow> val \<Rightarrow> val \<Rightarrow> val result" where
  "demo_arith opr a b =
     (if opr = Add \<and> b = nuclear_repulsion then
        (case map_of demo_sums a of
           Some v \<Rightarrow> Inr v
         | None \<Rightarrow> Inl (Exception ''NotImplementedError''))
      else if opr = Pow \<and> a = VInt 10 \<and> b = VInt (- 10) then Inr (VFloat (1 / 10000000000))
      else Inl (Exception ''NotImplementedError''))"

definition demo_runtime :: "val result list runtime" where
  "demo_runtime =
     \<lparr>library = scripted, str_of = demo_str, float_arith = demo_arith,
      numpy_arith = demo_arith\<rparr>"

text \<open>A kernel with the given bindings, no events yet, and a library that will give the
  given answers.\<close>

definition session :: "(string \<times> val) list \<Rightarrow> val list \<Rightarrow> val result list kernel" where
  "session bindings answers =
     \<lparr>globals = map_of bindings, lib_state = map Inr answers, events = []\<rparr>"

text \<open>The answers of the first five cells up to the call of the chemistry driver: the
  modules, the backend, the imported classes and their instances, the driver and its
  method \<open>run\<close>.\<close>

definition h2_setup_answers :: "val list" where
  "h2_setup_answers =
     [VObj 0, VObj 1,
      VObj 2, VObj 3, VObj 4,
      VObj 5, VObj 6, VObj 7, VObj 8, VObj 9, VObj 10, VNone, VObj 11,
      VObj 12, VObj 13, VObj 14, VObj 15, VObj 16]"

text \<open>A fresh kernel whose library gives these answers and then raises when the driver
  is run.\<close>

definition h2_driver_fails :: "val result list kernel" where
  "h2_driver_fails =
     \<lparr>globals = Map.empty,
      lib_state = map Inr h2_setup_answers @ [Inl (Exception ''QiskitChemistryError'')],
      events = []\<rparr>"

text \<open>The kernel before the cell that sets up the initial state and the variational
  form, with the answers to come: the three imported classes, the one-body integrals
  and their shape, the numbers of alpha and beta electrons and the charge, the integrals
  again, the fermionic operator, its method \<open>mapping\<close> and the qubit operator, its method
  \<open>chop\<close> and what it returns, the Hartree-Fock state and the UCCSD form.\<close>

definition h2_before_var_form :: "val result list kernel" where
  "h2_before_var_form =
     session [(''molecule'', VObj 17)]
       [VObj 18, VObj 19, VObj 20,
        VObj 21, VTuple [VInt 4, VInt 4],
        VInt 1, VInt 1, VInt 0,
        VObj 21, VObj 22, VObj 23,
        VObj 24, VObj 25,
        VObj 26, VNone,
        VObj 27, VObj 28]"

text \<open>The answers of the cell that runs VQE, up to the construction of the VQE
  algorithm: two imported names, the two single and the one double excitation of the
  variational form, the optimizer, its method and what the method returns, the VQE
  object.\<close>

definition h2_vqe_answers :: "val list" where
  "h2_vqe_answers =
     [VObj 29, VObj 30,
      VList [VList [VInt 0, VInt 1], VList [VInt 2, VInt 3]],
      VList [VList [VInt 0, VInt 1, VInt 2, VInt 3]],
      VObj 31, VObj 32, VNone, VObj 33]"

definition h2_before_vqe :: "val result list kernel" where
  "h2_before_vqe =
     session [(''qubitOp'', VObj 25), (''var_form'', VObj 28), (''quantum_instance'', VObj 11),
              (''molecule'', VObj 17)] h2_vqe_answers"

text \<open>The kernel before \<open>results = vqe_algorithm.run(quantum_instance)\<close>, with the
  answers to come: the method, the VQE result (one complex eigenvalue), the repulsion
  energy.\<close>

definition h2_before_vqe_run :: "val result list kernel" where
  "h2_before_vqe_run =
     session [(''vqe_algorithm'', VObj 33), (''quantum_instance'', VObj 11),
              (''molecule'', VObj 17)]
       [VObj 34,
        VDict [(VStr ''eigvals'', VArray [VComplex (Complex (- 189 / 100) 0)]),
               (VStr ''opt_params'', VArray [VFloat 0, VFloat 0, VFloat (- 1 / 10)])],
        nuclear_repulsion]"

text \<open>The kernel before \<open>energies = qse_algorithm.run(quantum_instance)['eigvals']\<close>, with
  the answers to come: the method, the QSE result (three eigenvalues), the repulsion
  energy.\<close>

definition h2_before_qse_run :: "val result list kernel" where
  "h2_before_qse_run =
     session [(''qse_algorithm'', VObj 40), (''quantum_instance'', VObj 11),
              (''molecule'', VObj 17)]
       [VObj 41,
        VDict [(VStr ''eigvals'',
                VArray (map VFloat [- 189 / 100, - 5 / 4, - 9 / 10]))],
        nuclear_repulsion]"

text \<open>The routing run whose output the Cirq notebook shows: the nine grid qubits, and the
  pair of maps that \<open>route\<close> returned.\<close>

definition grid_qubits :: "val list" where
  "grid_qubits = map VObj [10, 11, 12, 13, 14, 15, 16, 17, 18]"

definition routing_maps :: val where
  "routing_maps =
     VTuple [VList (map VInt [8, 3, 4, 6, 5, 7, 2, 1, 0]),
             VList (map VInt [8, 3, 5, 7, 4, 6, 2, 1, 0])]"

definition routed_kernel :: "val result list kernel" where
  "routed_kernel =
     session [(''qubits'', VList grid_qubits), (''tk_routed'', VObj 42), (''qmap'', routing_maps)]
       [VObj 43]"


section \<open>Reasoning about runs\<close>

text \<open>The rules in \<open>run_iff\<close> turn the equation "this computation ends with this result
  in this kernel" into what the library must have answered.\<close>

named_theorems run_iff

named_theorems propagates_intros

lemma ret_eq [run_iff]: "(ret x R k = (r, k')) = (r = Inr x \<and> k' = k)"
  by (auto simp: ret_def)

lemma lift_eq [run_iff]: "(lift a R k = (r, k')) = (a = r \<and> k' = k)"
  by (auto simp: lift_def)

lemma literal_eq [run_iff]: "(literal v R k = (r, k')) = (r = Inr v \<and> k' = k)"
  by (auto simp: literal_def ret_def)

lemma bnd_eq:
  "(bnd m f R k = (r, k')) =
     ((\<exists>e. m R k = (Inl e, k') \<and> r = Inl e) \<or>
      (\<exists>x k1. m R k = (Inr x, k1) \<and> f x R k1 = (r, k')))"
  by (auto simp: bnd_def split: prod.splits sum.splits)

lemma bnd_Inr [run_iff]:
  "(bnd m f R k = (Inr y, k')) = (\<exists>x k1. m R k = (Inr x, k1) \<and> f x R k1 = (Inr y, k'))"
  by (auto simp: bnd_def split: prod.splits sum.splits)

lemma bnd_ret [simp]: "bnd m ret = m"
  by (auto simp: bnd_def ret_def fun_eq_iff split: prod.splits sum.splits)

lemma bnd_assoc: "bnd (bnd m f) g = bnd m (\<lambda>x. bnd (f x) g)"
  by (auto simp: bnd_def fun_eq_iff split: prod.splits sum.splits)

lemma bnd_lift_Inl: "bnd (lift (Inl e)) g = lift (Inl e)"
  by (auto simp: bnd_def lift_def fun_eq_iff)

lemma ask_eq [run_iff]:
  "(ask q R k = (r, k')) =
     (\<exists>s'. library R q (lib_state k) = (r, s') \<and>
           k' = k\<lparr>lib_state := s', events := events k @ [Lib q r]\<rparr>)"
  by (auto simp: ask_def split: prod.splits)

lemma emit_eq [run_iff]:
  "(emit ev R k = (r, k')) = (r = Inr () \<and> k' = k\<lparr>events := events k @ [ev]\<rparr>)"
  by (auto simp: emit_def)

lemma bind_name_eq [run_iff]:
  "(bind_name x v R k = (r, k')) = (r = Inr () \<and> k' = k\<lparr>globals := (globals k)(x \<mapsto> v)\<rparr>)"
  by (auto simp: bind_name_def)

lemma name_eq:
  "(name x R k = (r, k')) =
     (k' = k \<and> r = (case globals k x of Some v \<Rightarrow> Inr v | None \<Rightarrow> Inl (Exception ''NameError'')))"
  by (auto simp: name_def split: option.splits)

lemma name_Inr [run_iff]: "(name x R k = (Inr v, k')) = (globals k x = Some v \<and> k' = k)"
  by (auto simp: name_def split: option.splits)

lemma py_call_eq:
  "(py_call f vs kvs R k = (r, k')) =
     ((\<exists>n. f = VObj n \<and> ask (Call f vs kvs) R k = (r, k')) \<or>
      ((\<forall>n. f \<noteq> VObj n) \<and> r = TypeError \<and> k' = k))"
  by (cases f) (auto simp: py_call_def lift_def)

lemma py_call_Inr [run_iff]:
  "(py_call f vs kvs R k = (Inr v, k')) =
     (\<exists>n. f = VObj n \<and> ask (Call f vs kvs) R k = (Inr v, k'))"
  by (cases f) (auto simp: py_call_def TypeError_def lift_def)

lemma py_getattr_eq:
  "(py_getattr v a R k = (r, k')) =
     ((\<exists>n. v = VObj n \<and> ask (GetAttr v a) R k = (r, k')) \<or>
      ((\<forall>n. v \<noteq> VObj n) \<and> r = data_attr v a \<and> k' = k))"
  by (cases v) (auto simp: py_getattr_def lift_def)

lemma data_attr_Inr: "data_attr v a = Inr x \<Longrightarrow> a = ''real'' \<or> a = ''shape''"
  by (auto simp: data_attr_def split: val.splits if_splits)

lemma data_attr_other:
  "a \<noteq> ''real'' \<Longrightarrow> a \<noteq> ''shape'' \<Longrightarrow> data_attr v a = Inl (Exception ''AttributeError'')"
  by (auto simp: data_attr_def split: val.splits)

lemma py_getattr_Inr [run_iff]:
  "a \<noteq> ''real'' \<Longrightarrow> a \<noteq> ''shape'' \<Longrightarrow>
   (py_getattr v a R k = (Inr x, k')) = (\<exists>n. v = VObj n \<and> ask (GetAttr v a) R k = (Inr x, k'))"
  by (cases v) (auto simp: py_getattr_def lift_def data_attr_other)

lemma call_method_other:
  assumes "m \<noteq> ''format''"
  shows "call_method e m args kw = call (attribute e m) args kw"
proof -
  have "(case v of VStr s \<Rightarrow> if m = ''format'' \<and> kw = [] then bnd (eval_all args) (format_call s)
                else lift (Inl (Exception ''AttributeError''))
         | _ \<Rightarrow> call (py_getattr v m) args kw) = call (py_getattr v m) args kw" for v
    using assms by (cases v) (simp_all add: call_def py_getattr_def data_attr_def bnd_lift_Inl)
  then show ?thesis
    by (simp add: call_method_def call_def attribute_def bnd_assoc)
qed

lemma format_literal:
  "call_method (literal (VStr s)) ''format'' args [] = bnd (eval_all args) (format_call s)"
  by (simp add: call_method_def bnd_def literal_def ret_def fun_eq_iff)

lemma import_from_one:
  "import_from m [x] = bnd (ask (ImportFrom m x)) (\<lambda>v. bind_name x v)"
  by (simp add: fun_eq_iff)

lemma map_sum_Inr [run_iff]: "(map_sum f g r = Inr y) = (\<exists>x. r = Inr x \<and> y = g x)"
  by (cases r) auto

lemma builtin_len [run_iff]: "builtin ''len'' [v] = lift (map_sum id VInt (py_len v))"
  by (simp add: builtin_def)

lemma builtin_range [run_iff]: "builtin ''range'' [v] = lift (py_range v)"
  by (simp add: builtin_def)

lemma builtin_enumerate [run_iff]: "builtin ''enumerate'' [v] = lift (py_enumerate v)"
  by (simp add: builtin_def)

lemma builtin_print [run_iff]: "builtin ''print'' vs = bnd (emit (Printed vs)) (\<lambda>_. ret VNone)"
  by (simp add: builtin_def)

lemma py_range_Inr [run_iff]: "(py_range v = Inr w) = (\<exists>n. v = VInt n \<and> w = VRange n)"
  by (cases v) (auto simp: TypeError_def)

lemma py_len_nonneg: "py_len v = Inr n \<Longrightarrow> 0 \<le> n"
  by (cases v) (auto simp: TypeError_def)

lemma int_add [run_iff]: "py_binop R Add (VInt a) (VInt b) = Inr (VInt (a + b))"
  by (simp add: py_binop_def num_binop_def)

lemmas stmt_defs = run_all_def run_cell_def import_as_def assign_def unpack_def
  attribute_def call_def expr_def dict_display_def list_display_def call_builtin_def
  subscript_def binop_def usub_def display_def

subsection \<open>The loop that fills the initial point\<close>

lemma range_items_length [simp]: "length (range_items n) = nat n"
  by (simp add: range_items_def)

lemma append_loop:
  assumes "globals k x = Some (VList xs)" "i \<noteq> x"
  shows "for_items i items (append_stmt x (literal c)) R k =
           (Inr (), k\<lparr>globals := (if items = [] then globals k else (globals k)(i \<mapsto> last items))
                            (x \<mapsto> VList (xs @ replicate (length items) c))\<rparr>)"
  using assms
proof (induction items arbitrary: k xs)
  case Nil
  then have "(globals k)(x \<mapsto> VList xs) = globals k"
    by (auto simp: fun_eq_iff)
  then show ?case by (simp add: ret_def)
next
  case (Cons v vs)
  let ?k1 = "k\<lparr>globals := (globals k)(i \<mapsto> v, x \<mapsto> VList (xs @ [c]))\<rparr>"
  have step: "bnd (bind_name i v) (\<lambda>_. append_stmt x (literal c)) R k = (Inr (), ?k1)"
    using Cons.prems by (simp add: bnd_def bind_name_def append_stmt_def literal_def ret_def)
  have "for_items i (v # vs) (append_stmt x (literal c)) R k =
          for_items i vs (append_stmt x (literal c)) R ?k1"
    using step by (simp add: bnd_def bind_name_def split: prod.splits sum.splits)
  also have "\<dots> = (Inr (), ?k1\<lparr>globals :=
               (if vs = [] then globals ?k1 else (globals ?k1)(i \<mapsto> last vs))
               (x \<mapsto> VList ((xs @ [c]) @ replicate (length vs) c))\<rparr>)"
    using Cons.prems by (intro Cons.IH) simp_all
  finally show ?case
    using Cons.prems by (auto simp: replicate_append_same fun_eq_iff)
qed

subsection \<open>Evaluating a run on the scripted library\<close>

lemmas eval_defs = run_all_def run_cell_def import_as_def assign_def unpack_def
  attribute_def call_def expr_def dict_display_def list_display_def call_builtin_def
  bnd_def ret_def lift_def ask_def emit_def bind_name_def name_def literal_def py_call_def
  py_getattr_def call_method_def append_stmt_def for_stmt_def builtin_def binop_def usub_def
  subscript_def format_call_def display_def listcomp_def with_targets_def
  py_getitem_def seq_index_def py_binop_def num_binop_def demo_str_def py_str_def data_attr_def
  range_items_def upto.simps demo_arith_def demo_sums_def TypeError_def IndexError_def py_enumerate_def
  scripted_def demo_runtime_def session_def

section \<open>Exceptions of the library are not handled\<close>

lemma uncaught_iff:
  "uncaught r new = (\<forall>pre q e post. new = pre @ Lib q (Inl e) # post \<longrightarrow> post = [] \<and> r = Some e)"
proof (induction new)
  case Nil
  then show ?case by simp
next
  case (Cons ev evs)
  show ?case
  proof (cases "\<exists>q e. ev = Lib q (Inl e)")
    case True
    then obtain q e where ev: "ev = Lib q (Inl e)" by blast
    show ?thesis
    proof
      assume u: "uncaught r (ev # evs)"
      with ev have "evs = []" "r = Some e" by simp_all
      then show "\<forall>pre q e post. ev # evs = pre @ Lib q (Inl e) # post \<longrightarrow> post = [] \<and> r = Some e"
        using ev by (auto simp: Cons_eq_append_conv)
    next
      assume a: "\<forall>pre q e post. ev # evs = pre @ Lib q (Inl e) # post \<longrightarrow> post = [] \<and> r = Some e"
      from a [rule_format, of "[]" q e evs] ev show "uncaught r (ev # evs)"
        by simp
    qed
  next
    case False
    then have step: "uncaught r (ev # evs) = uncaught r evs"
      by (cases ev) (auto split: sum.splits)
    have "(\<forall>pre q e post. ev # evs = pre @ Lib q (Inl e) # post \<longrightarrow> post = [] \<and> r = Some e) =
          (\<forall>pre q e post. evs = pre @ Lib q (Inl e) # post \<longrightarrow> post = [] \<and> r = Some e)"
      using False by (auto simp: Cons_eq_append_conv) (metis append_Cons)+
    with step Cons.IH show ?thesis by simp
  qed
qed

lemma uncaught_append:
  "uncaught None xs \<Longrightarrow> uncaught r ys \<Longrightarrow> uncaught r (xs @ ys)"
  by (induction xs) (auto split: event.splits sum.splits)

lemma propagatesI:
  "(\<And>R k r k'. m R k = (r, k') \<Longrightarrow> \<exists>new. events k' = events k @ new \<and> uncaught (raised r) new)
   \<Longrightarrow> propagates m"
  by (auto simp: propagates_def)

lemma propagatesD:
  "propagates m \<Longrightarrow> m R k = (r, k') \<Longrightarrow> \<exists>new. events k' = events k @ new \<and> uncaught (raised r) new"
  by (auto simp: propagates_def)

lemma propagates_ret [propagates_intros]: "propagates (ret x)"
  by (rule propagatesI) (simp add: run_iff)

lemma propagates_lift [propagates_intros]: "propagates (lift a)"
  by (rule propagatesI) (simp add: run_iff)

lemma propagates_literal [propagates_intros]: "propagates (literal v)"
  by (rule propagatesI) (simp add: run_iff)

lemma propagates_name [propagates_intros]: "propagates (name x)"
  by (rule propagatesI) (simp add: name_eq)

lemma propagates_bind_name [propagates_intros]: "propagates (bind_name x v)"
  by (rule propagatesI) (auto simp: run_iff)

lemma propagates_ask [propagates_intros]: "propagates (ask q)"
  by (rule propagatesI) (auto simp: run_iff raised_def split: sum.splits)

lemma propagates_print [propagates_intros]: "propagates (emit (Printed vs))"
  by (rule propagatesI) (auto simp: run_iff)

lemma propagates_displayed [propagates_intros]: "propagates (emit (Displayed v))"
  by (rule propagatesI) (auto simp: run_iff)

lemma propagates_bnd [propagates_intros]:
  assumes m: "propagates m" and f: "\<And>x. propagates (f x)"
  shows "propagates (bnd m f)"
proof (rule propagatesI)
  fix R k r k'
  assume run: "bnd m f R k = (r, k')"
  then consider (stop) e where "m R k = (Inl e, k')" "r = Inl e"
    | (go) x k1 where "m R k = (Inr x, k1)" "f x R k1 = (r, k')"
    by (auto simp: bnd_eq)
  then show "\<exists>new. events k' = events k @ new \<and> uncaught (raised r) new"
  proof cases
    case stop
    from propagatesD [OF m stop(1)] stop(2) show ?thesis
      by (simp add: raised_def)
  next
    case go
    from propagatesD [OF m go(1)] obtain new1 where
      n1: "events k1 = events k @ new1" "uncaught None new1"
      by (auto simp: raised_def)
    from propagatesD [OF f go(2)] obtain new2 where
      n2: "events k' = events k1 @ new2" "uncaught (raised r) new2"
      by auto
    from n1 n2 have "events k' = events k @ (new1 @ new2)" by simp
    moreover have "uncaught (raised r) (new1 @ new2)"
      using n1(2) n2(2) by (rule uncaught_append)
    ultimately show ?thesis by blast
  qed
qed

lemma propagates_eval_all [propagates_intros]:
  "list_all propagates es \<Longrightarrow> propagates (eval_all es)"
  by (induction es) (auto intro!: propagates_intros)

lemma propagates_eval_keywords [propagates_intros]:
  "list_all (\<lambda>ke. propagates (snd ke)) kes \<Longrightarrow> propagates (eval_keywords kes)"
  by (induction kes) (auto intro!: propagates_intros)

lemma propagates_py_getattr [propagates_intros]: "propagates (py_getattr v a)"
  by (cases v) (auto simp: py_getattr_def intro!: propagates_intros)

lemma propagates_py_call [propagates_intros]: "propagates (py_call f vs kvs)"
  by (cases f) (auto simp: py_call_def intro!: propagates_intros)

lemma propagates_format_call [propagates_intros]: "propagates (format_call s vs)"
  by (rule propagatesI) (auto simp: format_call_def run_iff)

lemma propagates_attribute [propagates_intros]: "propagates e \<Longrightarrow> propagates (attribute e a)"
  by (auto simp: attribute_def intro!: propagates_intros)

lemma propagates_subscript [propagates_intros]:
  "propagates e \<Longrightarrow> propagates i \<Longrightarrow> propagates (subscript e i)"
  by (auto simp: subscript_def intro!: propagates_intros)

lemma propagates_py_binop: "propagates (\<lambda>R. lift (py_binop R opr a b) R)"
  by (rule propagatesI) (simp add: run_iff)

lemma propagates_binop [propagates_intros]:
  "propagates l \<Longrightarrow> propagates r \<Longrightarrow> propagates (binop l opr r)"
  by (auto simp: binop_def intro!: propagates_intros propagates_py_binop)

lemma propagates_usub [propagates_intros]: "propagates e \<Longrightarrow> propagates (usub e)"
  by (auto simp: usub_def intro!: propagates_intros)

lemma propagates_list_display [propagates_intros]:
  "list_all propagates es \<Longrightarrow> propagates (list_display es)"
  by (auto simp: list_display_def intro!: propagates_intros)

lemma propagates_dict_display [propagates_intros]:
  "list_all (\<lambda>ke. propagates (snd ke)) kes \<Longrightarrow> propagates (dict_display kes)"
  by (auto simp: dict_display_def intro!: propagates_intros)

lemma propagates_call [propagates_intros]:
  "propagates f \<Longrightarrow> list_all propagates args \<Longrightarrow> list_all (\<lambda>ke. propagates (snd ke)) kws \<Longrightarrow>
   propagates (call f args kws)"
  by (auto simp: call_def intro!: propagates_intros)

lemma propagates_call_method [propagates_intros]:
  assumes "propagates e" "list_all propagates args" "list_all (\<lambda>ke. propagates (snd ke)) kws"
  shows "propagates (call_method e m args kws)"
proof -
  have "propagates (case v of
         VStr s \<Rightarrow> (if m = ''format'' \<and> kws = [] then bnd (eval_all args) (format_call s)
            else lift (Inl (Exception ''AttributeError'')))
       | _ \<Rightarrow> call (py_getattr v m) args kws)" for v
    using assms by (cases v) (auto intro!: propagates_intros)
  with assms(1) show ?thesis
    unfolding call_method_def by (intro propagates_bnd)
qed

lemma propagates_builtin [propagates_intros]: "propagates (builtin f vs)"
  by (auto simp: builtin_def intro!: propagates_intros split: list.splits)

lemma propagates_call_builtin [propagates_intros]:
  "list_all propagates args \<Longrightarrow> propagates (call_builtin f args)"
  by (auto simp: call_builtin_def intro!: propagates_intros)

lemma propagates_with_targets [propagates_intros]:
  assumes "propagates elt"
  shows "propagates (with_targets targets v elt)"
proof (rule propagatesI)
  fix R k r k'
  assume run: "with_targets targets v elt R k = (r, k')"
  show "\<exists>new. events k' = events k @ new \<and> uncaught (raised r) new"
  proof (cases "unpack targets v")
    case (Inl e)
    with run show ?thesis by (simp add: with_targets_def)
  next
    case (Inr bs)
    with run obtain k1 where
      elt: "elt R (k\<lparr>globals := globals k ++ map_of (rev bs)\<rparr>) = (r, k1)"
      and k': "k' = k1\<lparr>globals := globals k\<rparr>"
      by (auto simp: with_targets_def split: prod.splits)
    from propagatesD [OF assms elt] k' show ?thesis by simp
  qed
qed

lemma propagates_comp_items [propagates_intros]:
  "propagates elt \<Longrightarrow> propagates (comp_items targets items elt)"
  by (induction items) (auto intro!: propagates_intros)

lemma propagates_listcomp [propagates_intros]:
  "propagates elt \<Longrightarrow> propagates iter \<Longrightarrow> propagates (listcomp elt targets iter)"
  by (auto simp: listcomp_def intro!: propagates_intros)

lemma propagates_import_as [propagates_intros]: "propagates (import_as m x)"
  by (auto simp: import_as_def intro!: propagates_intros)

lemma propagates_import_from [propagates_intros]: "propagates (import_from m xs)"
  by (induction xs) (auto intro!: propagates_intros)

lemma propagates_bind_all [propagates_intros]: "propagates (bind_all bs)"
  by (induction bs) (auto intro!: propagates_intros)

lemma propagates_assign [propagates_intros]: "propagates e \<Longrightarrow> propagates (assign targets e)"
  by (auto simp: assign_def intro!: propagates_intros)

lemma propagates_expr [propagates_intros]: "propagates e \<Longrightarrow> propagates (expr e)"
  by (auto simp: expr_def intro!: propagates_intros)

lemma propagates_display [propagates_intros]: "propagates e \<Longrightarrow> propagates (display e)"
  by (auto simp: display_def intro!: propagates_intros)

lemma propagates_append_stmt [propagates_intros]:
  assumes "propagates e"
  shows "propagates (append_stmt x e)"
proof (rule propagatesI)
  fix R k r k'
  assume run: "append_stmt x e R k = (r, k')"
  have a: "propagates (bnd e (\<lambda>v. bind_name x (VList (xs @ [v]))))" for xs
    using assms by (auto intro!: propagates_intros)
  have b: "propagates (expr (call_method (name x) ''append'' [e] []))"
    using assms by (auto intro!: propagates_intros)
  from run show "\<exists>new. events k' = events k @ new \<and> uncaught (raised r) new"
    by (auto simp: append_stmt_def split: option.splits val.splits
        dest: propagatesD [OF a] propagatesD [OF b])
qed

lemma propagates_block [propagates_intros]:
  "list_all propagates cs \<Longrightarrow> propagates (block cs)"
  by (induction cs) (auto intro!: propagates_intros)

lemma propagates_for_items [propagates_intros]:
  "propagates body \<Longrightarrow> propagates (for_items x items body)"
  by (induction items) (auto intro!: propagates_intros)

lemma propagates_for_stmt [propagates_intros]:
  "propagates iter \<Longrightarrow> list_all propagates body \<Longrightarrow> propagates (for_stmt x iter body)"
  by (auto simp: for_stmt_def intro!: propagates_intros)

lemma propagates_run_cell [propagates_intros]:
  "list_all propagates c \<Longrightarrow> propagates (run_cell c)"
  by (auto simp: run_cell_def intro!: propagates_intros)

lemma propagates_run_all:
  "list_all (\<lambda>c. list_all propagates c) cells \<Longrightarrow> propagates (run_all cells)"
  by (auto simp: run_all_def list_all_iff intro!: propagates_intros)

lemma qse_cells:
  "list_all (\<lambda>c. list_all propagates c) qse_notebook"
  by (simp add: qse_notebook_def qse_import_def qse_configure_def qse_backend_def
      qse_compilation_def qse_classical_def qse_var_form_def qse_vqe_def qse_qse_def
      propagates_intros)

lemma pyquil_cells:
  "list_all (\<lambda>c. list_all propagates c) pyquil_notebook"
  by (simp add: pyquil_notebook_def pyquil_state_preparation_def pyquil_convert_def
      pyquil_optimise_def pyquil_simulate_def propagates_intros)

lemma cirq_cells:
  "list_all (\<lambda>c. list_all propagates c) cirq_notebook"
  by (simp add: cirq_notebook_def cirq_import_def cirq_grid_def cirq_circuit_def
      cirq_route_def cirq_empty_def propagates_intros)

text \<open>
  Claim C3. The notebooks handle no exception. Run all the cells of one of the three
  notebooks, or a single cell of it, with any library and from any kernel, and let
  \<open>new\<close> be the events that the run adds. If the library answered a request of the
  run with an exception \<open>e\<close>, then that request is the last event of the run (nothing
  is asked, printed or displayed after it) and the outcome of the run is \<open>e\<close> itself.
\<close>

theorem library_exceptions_propagate:
  assumes nb: "nb = qse_notebook \<or> nb = pyquil_notebook \<or> nb = cirq_notebook"
    and m: "m = run_all nb \<or> m \<in> set (map run_cell nb)"
    and run: "m R k = (r, k')"
  shows "\<exists>new. events k' = events k @ new \<and>
           (\<forall>pre q e post. new = pre @ Lib q (Inl e) # post \<longrightarrow> post = [] \<and> r = Inl e)"
proof -
  from nb have cells: "list_all (\<lambda>c. list_all propagates c) nb"
    using qse_cells pyquil_cells cirq_cells by blast
  have "propagates m"
  proof -
    from m consider "m = run_all nb" | c where "c \<in> set nb" "m = run_cell c"
      by auto
    then show ?thesis
    proof cases
      case 1
      with cells show ?thesis by (simp add: propagates_run_all)
    next
      case 2
      with cells have "list_all propagates c" by (simp add: list_all_iff)
      with 2 show ?thesis by (simp add: propagates_run_cell)
    qed
  qed
  from propagatesD [OF this run] obtain new where
    new: "events k' = events k @ new" and u: "uncaught (raised r) new"
    by blast
  from u have "\<forall>pre q e post. new = pre @ Lib q (Inl e) # post \<longrightarrow> post = [] \<and> r = Inl e"
    by (auto simp: uncaught_iff raised_def split: sum.splits)
  with new show ?thesis by blast
qed

text \<open>On the scripted H2 run in which the driver raises, the run of the whole notebook
  ends with that exception, and the call of the driver is its last event.\<close>

theorem library_exceptions_propagate_witness:
  "\<exists>r k' new.
     run_all qse_notebook demo_runtime h2_driver_fails = (r, k') \<and>
     events k' = events h2_driver_fails @ new \<and>
     r = Inl (Exception ''QiskitChemistryError'') \<and>
     length new = 19 \<and>
     (\<exists>properties. last new =
        Lib (Call (VObj 16) [properties] []) (Inl (Exception ''QiskitChemistryError'')))"
proof -
  have "\<exists>k' pre properties.
     run_all qse_notebook demo_runtime h2_driver_fails =
       (Inl (Exception ''QiskitChemistryError''), k') \<and>
     events k' =
       pre @ [Lib (Call (VObj 16) [properties] []) (Inl (Exception ''QiskitChemistryError''))] \<and>
     length pre = 18"
    by (simp add: qse_notebook_def qse_import_def qse_configure_def qse_backend_def
        qse_compilation_def qse_classical_def h2_setup_answers_def h2_driver_fails_def eval_defs)
  then obtain k' pre properties where
    run: "run_all qse_notebook demo_runtime h2_driver_fails =
       (Inl (Exception ''QiskitChemistryError'') :: unit result, k')"
    and evs: "events k' =
       pre @ [Lib (Call (VObj 16) [properties] []) (Inl (Exception ''QiskitChemistryError''))]"
    and pre: "length pre = 18"
    by (elim exE conjE)
  have "\<exists>new. events k' = events h2_driver_fails @ new \<and>
          (\<forall>pre q e post. new = pre @ Lib q (Inl e) # post \<longrightarrow>
             post = [] \<and> (Inl (Exception ''QiskitChemistryError'') :: unit result) = Inl e)"
    by (rule library_exceptions_propagate [where nb = qse_notebook and m = "run_all qse_notebook" and R = demo_runtime])
      (simp_all add: run)
  then obtain new where new: "events k' = events h2_driver_fails @ new"
    by (elim exE conjE)
  then have "new = pre @ [Lib (Call (VObj 16) [properties] []) (Inl (Exception ''QiskitChemistryError''))]"
    using evs by (simp add: h2_driver_fails_def)
  with run new pre show ?thesis
    by (intro exI [of _ "Inl (Exception ''QiskitChemistryError'')"] exI [of _ k'] exI [of _ new])
      simp
qed

section \<open>The configuration of the chemistry driver\<close>


lemma call_method_format:
  "call_method e ''format'' args [] =
     bnd e (\<lambda>v. case v of VStr s \<Rightarrow> bnd (eval_all args) (format_call s)
                 | _ \<Rightarrow> call (py_getattr v ''format'') args [])"
  by (simp add: call_method_def cong: val.case_cong)










section \<open>The reported energies\<close>

lemma py_getattr_real:
  "(py_getattr v ''real'' R k = (Inr x, k')) =
     ((\<exists>n. v = VObj n \<and> ask (GetAttr v ''real'') R k = (Inr x, k')) \<or>
      ((\<forall>n. v \<noteq> VObj n) \<and> data_attr v ''real'' = Inr x \<and> k' = k))"
  by (auto simp: py_getattr_eq)

lemma ground_state_energy:
  "block (take 4 (drop 8 qse_vqe)) R k = (Inr (), k') \<Longrightarrow>
   \<exists>alg qi mol f results ev e0 mid re nre g.
     globals k ''vqe_algorithm'' = Some alg \<and>
     globals k ''quantum_instance'' = Some qi \<and>
     globals k ''molecule'' = Some mol \<and>
     events k' = events k @
       [Lib (GetAttr alg ''run'') (Inr f), Lib (Call f [qi] []) (Inr results)] @ mid @
       [Lib (GetAttr mol ''nuclear_repulsion_energy'') (Inr nre),
        Printed [VStr (''GS Minimum value: '' @ py_str R g)]] \<and>
     py_getitem results (VStr ''eigvals'') = Inr ev \<and> py_getitem ev (VInt 0) = Inr e0 \<and>
     ((\<exists>n. e0 = VObj n) \<and> mid = [Lib (GetAttr e0 ''real'') (Inr re)] \<or>
      (\<forall>n. e0 \<noteq> VObj n) \<and> mid = [] \<and> data_attr e0 ''real'' = Inr re) \<and>
     py_binop R Add re nre = Inr g \<and>
     globals k' = (globals k)(''results'' \<mapsto> results, ''eigval'' \<mapsto> e0, ''gs_energy'' \<mapsto> g)"
  apply (simp add: qse_vqe_def stmt_defs call_method_other run_iff
      call_method_format format_call_def py_getattr_real)
  apply (elim exE conjE disjE)
   apply (clarsimp simp: run_iff)
  apply (clarsimp simp: run_iff)
  done

lemma excited_state_energies:
  "block (drop 6 qse_qse) R k = (Inr (), k') \<Longrightarrow>
   \<exists>alg qi mol f res energies nre shifted.
     globals k ''qse_algorithm'' = Some alg \<and>
     globals k ''quantum_instance'' = Some qi \<and>
     globals k ''molecule'' = Some mol \<and>
     events k' = events k @
       [Lib (GetAttr alg ''run'') (Inr f), Lib (Call f [qi] []) (Inr res),
        Lib (GetAttr mol ''nuclear_repulsion_energy'') (Inr nre),
        Printed [VStr ''Excited State Energies: '', shifted]] \<and>
     py_getitem res (VStr ''eigvals'') = Inr energies \<and>
     py_binop R Add energies nre = Inr shifted \<and>
     globals k' = (globals k)(''energies'' \<mapsto> energies)"
  apply (simp add: qse_qse_def stmt_defs call_method_other run_iff)
  apply (clarsimp simp: run_iff)
  done

lemma collect_pointwise:
  "collect (map f xs) = Inr ys \<Longrightarrow>
   length ys = length xs \<and> (\<forall>i < length xs. f (xs ! i) = Inr (ys ! i))"
proof (induction xs arbitrary: ys)
  case Nil
  then show ?case by simp
next
  case (Cons x xs)
  then obtain y ys' where y: "f x = Inr y" and ys': "collect (map f xs) = Inr ys'"
    and ys: "ys = y # ys'"
    by (auto split: sum.splits)
  from Cons.IH [OF ys'] y ys show ?case
    by (auto simp: nth_Cons split: nat.splits)
qed

lemma array_plus_number:
  "py_binop R Add (VArray xs) nre = Inr shifted \<Longrightarrow> is_number nre \<Longrightarrow>
   \<exists>ys. shifted = VArray ys \<and> length ys = length xs \<and>
        (\<forall>i < length xs. numpy_arith R Add (xs ! i) nre = Inr (ys ! i))"
  by (cases nre) (auto simp: py_binop_def run_iff dest: collect_pointwise)

lemma float_plus_float:
  "py_binop R Add (VFloat x) (VFloat y) = float_arith R Add (VFloat x) (VFloat y)"
  by (simp add: py_binop_def num_binop_def)

lemma real_of_complex: "data_attr (VComplex c) ''real'' = Inr re \<Longrightarrow> re = VFloat (Re c)"
  by (simp add: data_attr_def)

text \<open>
  Claim C8. In the cell that runs VQE, the four statements from
  \<open>results = vqe_algorithm.run(quantum_instance)\<close> to the first \<open>print\<close> do this whenever
  they run without an exception from a kernel \<open>k\<close>. With \<open>alg\<close>, \<open>qi\<close> and \<open>mol\<close> the
  values of \<open>vqe_algorithm\<close>, \<open>quantum_instance\<close> and \<open>molecule\<close> in \<open>k\<close>, the events
  they add are exactly: the read of \<open>alg.run\<close>, its call on \<open>qi\<close>, answered with
  \<open>results\<close>; the read of the attribute \<open>real\<close> when \<open>e0 = results['eigvals'][0]\<close> is a
  library object (plain data has its real part without a request); the read of
  \<open>mol.nuclear_repulsion_energy\<close>, answered with \<open>nre\<close>; and the print of the text
  "GS Minimum value: " followed by the string of \<open>gs_energy\<close>. The value \<open>g\<close> of
  \<open>gs_energy\<close> is the sum of the real part \<open>re\<close> and \<open>nre\<close>: for floats it is the float
  sum of the machine, and for a complex number \<open>e0\<close> the real part is \<open>Re e0\<close>, so the
  imaginary part plays no role. (The sum is left open when \<open>re\<close> is an int.)

  In the cell that runs QSE, the last two statements add, whenever they run without an
  exception, exactly the read of \<open>run\<close> of the value of \<open>qse_algorithm\<close>, its call on
  the value of \<open>quantum_instance\<close>, answered with \<open>res\<close>, the read of
  \<open>nuclear_repulsion_energy\<close> of the value of \<open>molecule\<close>, answered with \<open>nre\<close>, and the
  print of \<open>energies + nre\<close>, where \<open>energies\<close> is \<open>res['eigvals']\<close>; for an array
  \<open>energies\<close> and a number \<open>nre\<close> that is the array of the same length that holds at
  each position numpy's sum of the eigenvalue there and \<open>nre\<close>.
\<close>

theorem reported_energies:
  "(block (take 4 (drop 8 qse_vqe)) R k = (Inr (), k') \<longrightarrow>
    (\<exists>alg qi mol f results ev e0 mid re nre g.
       globals k ''vqe_algorithm'' = Some alg \<and>
       globals k ''quantum_instance'' = Some qi \<and>
       globals k ''molecule'' = Some mol \<and>
       events k' = events k @
         [Lib (GetAttr alg ''run'') (Inr f), Lib (Call f [qi] []) (Inr results)] @ mid @
         [Lib (GetAttr mol ''nuclear_repulsion_energy'') (Inr nre),
          Printed [VStr (''GS Minimum value: '' @ py_str R g)]] \<and>
       py_getitem results (VStr ''eigvals'') = Inr ev \<and> py_getitem ev (VInt 0) = Inr e0 \<and>
       ((\<exists>n. e0 = VObj n) \<and> mid = [Lib (GetAttr e0 ''real'') (Inr re)] \<or>
        (\<forall>n. e0 \<noteq> VObj n) \<and> mid = [] \<and> data_attr e0 ''real'' = Inr re) \<and>
       globals k' = (globals k)(''results'' \<mapsto> results, ''eigval'' \<mapsto> e0, ''gs_energy'' \<mapsto> g) \<and>
       (\<forall>c. e0 = VComplex c \<longrightarrow> re = VFloat (Re c)) \<and>
       ((\<forall>a. re \<noteq> VInt a) \<longrightarrow> py_binop R Add re nre = Inr g) \<and>
       (\<forall>x y. re = VFloat x \<and> nre = VFloat y \<longrightarrow>
          float_arith R Add (VFloat x) (VFloat y) = Inr g))) \<and>
   (block (drop 6 qse_qse) R k = (Inr (), k') \<longrightarrow>
    (\<exists>alg qi mol f res energies nre shifted.
       globals k ''qse_algorithm'' = Some alg \<and>
       globals k ''quantum_instance'' = Some qi \<and>
       globals k ''molecule'' = Some mol \<and>
       events k' = events k @
         [Lib (GetAttr alg ''run'') (Inr f), Lib (Call f [qi] []) (Inr res),
          Lib (GetAttr mol ''nuclear_repulsion_energy'') (Inr nre),
          Printed [VStr ''Excited State Energies: '', shifted]] \<and>
       py_getitem res (VStr ''eigvals'') = Inr energies \<and>
       py_binop R Add energies nre = Inr shifted \<and>
       globals k' = (globals k)(''energies'' \<mapsto> energies) \<and>
       (\<forall>xs. energies = VArray xs \<and> is_number nre \<longrightarrow>
          (\<exists>ys. shifted = VArray ys \<and> length ys = length xs \<and>
             (\<forall>i < length xs. numpy_arith R Add (xs ! i) nre = Inr (ys ! i))))))"
proof (intro conjI impI)
  assume "block (take 4 (drop 8 qse_vqe)) R k = (Inr (), k')"
  from ground_state_energy [OF this] obtain alg qi mol f results ev e0 mid re nre g where
    facts: "globals k ''vqe_algorithm'' = Some alg"
      "globals k ''quantum_instance'' = Some qi"
      "globals k ''molecule'' = Some mol"
      "events k' = events k @
         [Lib (GetAttr alg ''run'') (Inr f), Lib (Call f [qi] []) (Inr results)] @ mid @
         [Lib (GetAttr mol ''nuclear_repulsion_energy'') (Inr nre),
          Printed [VStr (''GS Minimum value: '' @ py_str R g)]]"
      "py_getitem results (VStr ''eigvals'') = Inr ev" "py_getitem ev (VInt 0) = Inr e0"
      "(\<exists>n. e0 = VObj n) \<and> mid = [Lib (GetAttr e0 ''real'') (Inr re)] \<or>
        (\<forall>n. e0 \<noteq> VObj n) \<and> mid = [] \<and> data_attr e0 ''real'' = Inr re"
      "globals k' = (globals k)(''results'' \<mapsto> results, ''eigval'' \<mapsto> e0, ''gs_energy'' \<mapsto> g)"
    and sum: "py_binop R Add re nre = Inr g"
    by (elim exE conjE) (rule that)
  have complex: "\<forall>c. e0 = VComplex c \<longrightarrow> re = VFloat (Re c)"
    using facts(7) by (auto dest: real_of_complex)
  have general: "(\<forall>a. re \<noteq> VInt a) \<longrightarrow> py_binop R Add re nre = Inr g"
    using sum by simp
  have floats: "\<forall>x y. re = VFloat x \<and> nre = VFloat y \<longrightarrow>
          float_arith R Add (VFloat x) (VFloat y) = Inr g"
    using sum by (auto simp: float_plus_float)
  show "\<exists>alg qi mol f results ev e0 mid re nre g.
       globals k ''vqe_algorithm'' = Some alg \<and>
       globals k ''quantum_instance'' = Some qi \<and>
       globals k ''molecule'' = Some mol \<and>
       events k' = events k @
         [Lib (GetAttr alg ''run'') (Inr f), Lib (Call f [qi] []) (Inr results)] @ mid @
         [Lib (GetAttr mol ''nuclear_repulsion_energy'') (Inr nre),
          Printed [VStr (''GS Minimum value: '' @ py_str R g)]] \<and>
       py_getitem results (VStr ''eigvals'') = Inr ev \<and> py_getitem ev (VInt 0) = Inr e0 \<and>
       ((\<exists>n. e0 = VObj n) \<and> mid = [Lib (GetAttr e0 ''real'') (Inr re)] \<or>
        (\<forall>n. e0 \<noteq> VObj n) \<and> mid = [] \<and> data_attr e0 ''real'' = Inr re) \<and>
       globals k' = (globals k)(''results'' \<mapsto> results, ''eigval'' \<mapsto> e0, ''gs_energy'' \<mapsto> g) \<and>
       (\<forall>c. e0 = VComplex c \<longrightarrow> re = VFloat (Re c)) \<and>
       ((\<forall>a. re \<noteq> VInt a) \<longrightarrow> py_binop R Add re nre = Inr g) \<and>
       (\<forall>x y. re = VFloat x \<and> nre = VFloat y \<longrightarrow>
          float_arith R Add (VFloat x) (VFloat y) = Inr g)"
    apply (rule exI [of _ alg], rule exI [of _ qi], rule exI [of _ mol], rule exI [of _ f],
        rule exI [of _ results], rule exI [of _ ev], rule exI [of _ e0], rule exI [of _ mid],
        rule exI [of _ re], rule exI [of _ nre], rule exI [of _ g])
    apply (intro conjI facts complex general floats)
    done
next
  assume "block (drop 6 qse_qse) R k = (Inr (), k')"
  from excited_state_energies [OF this] obtain alg qi mol f res energies nre shifted where
    facts: "globals k ''qse_algorithm'' = Some alg"
      "globals k ''quantum_instance'' = Some qi"
      "globals k ''molecule'' = Some mol"
      "events k' = events k @
         [Lib (GetAttr alg ''run'') (Inr f), Lib (Call f [qi] []) (Inr res),
          Lib (GetAttr mol ''nuclear_repulsion_energy'') (Inr nre),
          Printed [VStr ''Excited State Energies: '', shifted]]"
      "py_getitem res (VStr ''eigvals'') = Inr energies"
      "py_binop R Add energies nre = Inr shifted"
      "globals k' = (globals k)(''energies'' \<mapsto> energies)"
    by (elim exE conjE) (rule that)
  have arrays: "\<forall>xs. energies = VArray xs \<and> is_number nre \<longrightarrow>
          (\<exists>ys. shifted = VArray ys \<and> length ys = length xs \<and>
             (\<forall>i < length xs. numpy_arith R Add (xs ! i) nre = Inr (ys ! i)))"
    using facts(6) array_plus_number by blast
  show "\<exists>alg qi mol f res energies nre shifted.
       globals k ''qse_algorithm'' = Some alg \<and>
       globals k ''quantum_instance'' = Some qi \<and>
       globals k ''molecule'' = Some mol \<and>
       events k' = events k @
         [Lib (GetAttr alg ''run'') (Inr f), Lib (Call f [qi] []) (Inr res),
          Lib (GetAttr mol ''nuclear_repulsion_energy'') (Inr nre),
          Printed [VStr ''Excited State Energies: '', shifted]] \<and>
       py_getitem res (VStr ''eigvals'') = Inr energies \<and>
       py_binop R Add energies nre = Inr shifted \<and>
       globals k' = (globals k)(''energies'' \<mapsto> energies) \<and>
       (\<forall>xs. energies = VArray xs \<and> is_number nre \<longrightarrow>
          (\<exists>ys. shifted = VArray ys \<and> length ys = length xs \<and>
             (\<forall>i < length xs. numpy_arith R Add (xs ! i) nre = Inr (ys ! i))))"
    apply (rule exI [of _ alg], rule exI [of _ qi], rule exI [of _ mol], rule exI [of _ f],
        rule exI [of _ res], rule exI [of _ energies], rule exI [of _ nre],
        rule exI [of _ shifted])
    apply (intro conjI facts arrays)
    done
qed

text \<open>On the scripted H2 run both groups of statements succeed. The eigenvalue
  \<open>-1.89 + 0j\<close> and the repulsion energy \<open>0.7559674441714287\<close> give the ground-state
  energy \<open>-1.134032555828571\<close>, the double that Python's sum gives, and the three QSE
  eigenvalues are printed with the repulsion energy added to each by numpy.\<close>

theorem reported_energies_witness:
  "\<exists>k7 k8.
     block (take 4 (drop 8 qse_vqe)) demo_runtime h2_before_vqe_run = (Inr (), k7) \<and>
     block (drop 6 qse_qse) demo_runtime h2_before_qse_run = (Inr (), k8) \<and>
     globals k7 ''gs_energy'' = Some (VFloat (- 1134032555828571 / 1000000000000000)) \<and>
     events k7 =
       [Lib (GetAttr (VObj 33) ''run'') (Inr (VObj 34)),
        Lib (Call (VObj 34) [VObj 11] [])
          (Inr (VDict [(VStr ''eigvals'', VArray [VComplex (Complex (- 189 / 100) 0)]),
                       (VStr ''opt_params'', VArray [VFloat 0, VFloat 0, VFloat (- 1 / 10)])])),
        Lib (GetAttr (VObj 17) ''nuclear_repulsion_energy'') (Inr nuclear_repulsion),
        Printed [VStr ''GS Minimum value: -1.134032555828571'']] \<and>
     last (events k8) =
       Printed [VStr ''Excited State Energies: '',
                VArray [VFloat (- 1134032555828571 / 1000000000000000),
                        VFloat (- 4940325558285713 / 10000000000000000),
                        VFloat (- 14403255582857133 / 100000000000000000)]] \<and>
     (\<exists>f res nre shifted. events k8 =
         [Lib (GetAttr (VObj 40) ''run'') (Inr f), Lib (Call f [VObj 11] []) (Inr res),
          Lib (GetAttr (VObj 17) ''nuclear_repulsion_energy'') (Inr nre),
          Printed [VStr ''Excited State Energies: '', shifted]]) \<and>
     (\<exists>g. globals k7 ''gs_energy'' = Some g \<and>
        last (events k7) = Printed [VStr (''GS Minimum value: '' @ py_str demo_runtime g)])"
proof -
  have "\<exists>k7. block (take 4 (drop 8 qse_vqe)) demo_runtime h2_before_vqe_run = (Inr (), k7) \<and>
     globals k7 ''gs_energy'' = Some (VFloat (- 1134032555828571 / 1000000000000000)) \<and>
     events k7 =
       [Lib (GetAttr (VObj 33) ''run'') (Inr (VObj 34)),
        Lib (Call (VObj 34) [VObj 11] [])
          (Inr (VDict [(VStr ''eigvals'', VArray [VComplex (Complex (- 189 / 100) 0)]),
                       (VStr ''opt_params'', VArray [VFloat 0, VFloat 0, VFloat (- 1 / 10)])])),
        Lib (GetAttr (VObj 17) ''nuclear_repulsion_energy'') (Inr nuclear_repulsion),
        Printed [VStr ''GS Minimum value: -1.134032555828571'']]"
    by (simp add: qse_vqe_def h2_before_vqe_run_def eval_defs)
  then obtain k7 where
    vqe: "block (take 4 (drop 8 qse_vqe)) demo_runtime h2_before_vqe_run = (Inr (), k7)"
    and gs: "globals k7 ''gs_energy'' = Some (VFloat (- 1134032555828571 / 1000000000000000))"
    and evs7: "events k7 =
       [Lib (GetAttr (VObj 33) ''run'') (Inr (VObj 34)),
        Lib (Call (VObj 34) [VObj 11] [])
          (Inr (VDict [(VStr ''eigvals'', VArray [VComplex (Complex (- 189 / 100) 0)]),
                       (VStr ''opt_params'', VArray [VFloat 0, VFloat 0, VFloat (- 1 / 10)])])),
        Lib (GetAttr (VObj 17) ''nuclear_repulsion_energy'') (Inr nuclear_repulsion),
        Printed [VStr ''GS Minimum value: -1.134032555828571'']]"
    by (elim exE conjE)
  have "\<exists>k8. block (drop 6 qse_qse) demo_runtime h2_before_qse_run = (Inr (), k8) \<and>
     last (events k8) =
       Printed [VStr ''Excited State Energies: '',
                VArray [VFloat (- 1134032555828571 / 1000000000000000),
                        VFloat (- 4940325558285713 / 10000000000000000),
                        VFloat (- 14403255582857133 / 100000000000000000)]]"
    by (simp add: qse_qse_def h2_before_qse_run_def eval_defs)
  then obtain k8 where
    qse: "block (drop 6 qse_qse) demo_runtime h2_before_qse_run = (Inr (), k8)"
    and printed: "last (events k8) =
       Printed [VStr ''Excited State Energies: '',
                VArray [VFloat (- 1134032555828571 / 1000000000000000),
                        VFloat (- 4940325558285713 / 10000000000000000),
                        VFloat (- 14403255582857133 / 100000000000000000)]]"
    by (elim exE conjE)
  have start7: "events h2_before_vqe_run = []"
    and start8: "events h2_before_qse_run = []"
      "globals h2_before_qse_run ''qse_algorithm'' = Some (VObj 40)"
      "globals h2_before_qse_run ''quantum_instance'' = Some (VObj 11)"
      "globals h2_before_qse_run ''molecule'' = Some (VObj 17)"
    by (simp_all add: h2_before_vqe_run_def h2_before_qse_run_def session_def)
  have first: "\<exists>g. globals k7 ''gs_energy'' = Some g \<and>
        last (events k7) = Printed [VStr (''GS Minimum value: '' @ py_str demo_runtime g)]"
    using reported_energies [of demo_runtime h2_before_vqe_run k7, THEN conjunct1, rule_format, OF vqe]
    by (auto simp: start7)
  have second: "\<exists>f res nre shifted. events k8 =
         [Lib (GetAttr (VObj 40) ''run'') (Inr f), Lib (Call f [VObj 11] []) (Inr res),
          Lib (GetAttr (VObj 17) ''nuclear_repulsion_energy'') (Inr nre),
          Printed [VStr ''Excited State Energies: '', shifted]]"
    using reported_energies [of demo_runtime h2_before_qse_run k8, THEN conjunct2, rule_format, OF qse]
    by (auto simp: start8)
  show ?thesis
    apply (rule exI [of _ k7], rule exI [of _ k8])
    apply (intro conjI vqe qse gs evs7 printed second first)
    done
qed

section \<open>The initial point of VQE\<close>

lemma before_vqe:
  "block (take 7 qse_vqe) R k = (Inr (), k1) \<Longrightarrow>
   \<exists>vf lb vqe singles doubles ns nd opt so sr.
     globals k ''var_form'' = Some vf \<and>
     events k1 = events k @
       [Lib (ImportFrom ''qiskit_aqua.components.optimizers'' ''L_BFGS_B'') (Inr lb),
        Lib (ImportFrom ''qiskit_aqua.algorithms'' ''VQE'') (Inr vqe),
        Lib (GetAttr vf ''_single_excitations'') (Inr singles),
        Lib (GetAttr vf ''_double_excitations'') (Inr doubles),
        Lib (Call lb [] []) (Inr opt),
        Lib (GetAttr opt ''set_options'') (Inr so),
        Lib (Call so [] [(''maxfun'', VInt 1000), (''factr'', VInt 10), (''iprint'', VInt 10)])
          (Inr sr)] \<and>
     py_len singles = Inr ns \<and> py_len doubles = Inr nd \<and>
     globals k1 ''amplitudes_0'' =
       Some (VList (replicate (nat (ns + nd)) (VFloat (1 / 100000)))) \<and>
     globals k1 ''var_form'' = Some vf \<and>
     globals k1 ''VQE'' = Some vqe \<and>
     globals k1 ''optimizer'' = Some opt \<and>
     globals k1 ''qubitOp'' = globals k ''qubitOp''"
  apply (simp add: qse_vqe_def stmt_defs import_from_one call_method_other for_stmt_def run_iff)
  apply (clarsimp simp: append_loop run_iff)
  apply (simp add: range_items_def split: if_splits)
  done

lemma vqe_call:
  "(qse_vqe ! 7) R k1 = (r, k') \<Longrightarrow>
   globals k1 ''VQE'' = Some vqe \<Longrightarrow> globals k1 ''var_form'' = Some vf \<Longrightarrow>
   globals k1 ''optimizer'' = Some opt \<Longrightarrow> globals k1 ''amplitudes_0'' = Some p \<Longrightarrow>
   (r = Inr () \<longrightarrow>
      (\<exists>op alg. globals k1 ''qubitOp'' = Some op \<and>
         events k' = events k1 @
           [Lib (Call vqe []
              [(''operator'', op), (''operator_mode'', VStr ''matrix''), (''var_form'', vf),
               (''optimizer'', opt), (''initial_point'', p)]) (Inr alg)] \<and>
         globals k' = (globals k1)(''vqe_algorithm'' \<mapsto> alg))) \<and>
   (\<forall>e. r = Inl e \<longrightarrow>
      (events k' = events k1 \<or>
       (\<exists>op. globals k1 ''qubitOp'' = Some op \<and>
         events k' = events k1 @
           [Lib (Call vqe []
              [(''operator'', op), (''operator_mode'', VStr ''matrix''), (''var_form'', vf),
               (''optimizer'', opt), (''initial_point'', p)]) (Inl e)])))"
  apply (simp add: qse_vqe_def stmt_defs)
  apply (simp add: bnd_eq name_eq py_call_eq run_iff split: option.splits)
  apply (elim disjE exE conjE)
     apply (simp_all add: TypeError_def)
  done

text \<open>
  Claim C9. In the cell that runs VQE, the seven statements before the construction of the
  VQE algorithm are the two imports, the count \<open>number_amplitudes\<close>, the loop that fills
  \<open>amplitudes_0\<close>, and the optimizer. Whenever they run without an exception from a
  kernel \<open>k\<close>, the variable \<open>var_form\<close> holds a value \<open>vf\<close> in \<open>k\<close> and still does
  afterwards, the events they add are exactly the two imports, the reads of
  \<open>_single_excitations\<close> and \<open>_double_excitations\<close> of \<open>vf\<close>, answered with \<open>singles\<close>
  and \<open>doubles\<close>, and the three requests that make the optimizer, and \<open>amplitudes_0\<close> is
  the list of \<open>len(singles) + len(doubles)\<close> elements that are all 0.00001. The next
  statement, the construction of the VQE algorithm, when it raises nothing, makes
  exactly one request: the call of the imported \<open>VQE\<close> whose keyword \<open>var_form\<close> is
  \<open>vf\<close> and whose keyword \<open>initial_point\<close> is this list, and binds \<open>vqe_algorithm\<close> to
  the answer. When it raises, it has made either no request (\<open>qubitOp\<close> is unbound, or
  \<open>VQE\<close> cannot be called) or this same call, which the library answered with the
  exception.
\<close>

theorem initial_point_of_vqe:
  assumes before: "block (take 7 qse_vqe) R k = (Inr (), k1)"
    and stmt: "(qse_vqe ! 7) R k1 = (r, k')"
  shows "\<exists>vf lb vqe singles doubles ns nd opt so sr.
     globals k ''var_form'' = Some vf \<and>
     events k1 = events k @
       [Lib (ImportFrom ''qiskit_aqua.components.optimizers'' ''L_BFGS_B'') (Inr lb),
        Lib (ImportFrom ''qiskit_aqua.algorithms'' ''VQE'') (Inr vqe),
        Lib (GetAttr vf ''_single_excitations'') (Inr singles),
        Lib (GetAttr vf ''_double_excitations'') (Inr doubles),
        Lib (Call lb [] []) (Inr opt),
        Lib (GetAttr opt ''set_options'') (Inr so),
        Lib (Call so [] [(''maxfun'', VInt 1000), (''factr'', VInt 10), (''iprint'', VInt 10)])
          (Inr sr)] \<and>
     py_len singles = Inr ns \<and> py_len doubles = Inr nd \<and>
     globals k1 ''amplitudes_0'' =
       Some (VList (replicate (nat (ns + nd)) (VFloat (1 / 100000)))) \<and>
     globals k1 ''var_form'' = Some vf \<and>
     (r = Inr () \<longrightarrow>
        (\<exists>op alg. globals k1 ''qubitOp'' = Some op \<and>
           events k' = events k1 @
             [Lib (Call vqe []
                [(''operator'', op), (''operator_mode'', VStr ''matrix''), (''var_form'', vf),
                 (''optimizer'', opt),
                 (''initial_point'', VList (replicate (nat (ns + nd)) (VFloat (1 / 100000))))])
               (Inr alg)] \<and>
           globals k' = (globals k1)(''vqe_algorithm'' \<mapsto> alg))) \<and>
     (\<forall>e. r = Inl e \<longrightarrow>
        (events k' = events k1 \<or>
         (\<exists>op. globals k1 ''qubitOp'' = Some op \<and>
           events k' = events k1 @
             [Lib (Call vqe []
                [(''operator'', op), (''operator_mode'', VStr ''matrix''), (''var_form'', vf),
                 (''optimizer'', opt),
                 (''initial_point'', VList (replicate (nat (ns + nd)) (VFloat (1 / 100000))))])
               (Inl e)])))"
proof -
  from before_vqe [OF before] obtain vf lb vqe singles doubles ns nd opt so sr where
    vf: "globals k ''var_form'' = Some vf"
    and evs: "events k1 = events k @
       [Lib (ImportFrom ''qiskit_aqua.components.optimizers'' ''L_BFGS_B'') (Inr lb),
        Lib (ImportFrom ''qiskit_aqua.algorithms'' ''VQE'') (Inr vqe),
        Lib (GetAttr vf ''_single_excitations'') (Inr singles),
        Lib (GetAttr vf ''_double_excitations'') (Inr doubles),
        Lib (Call lb [] []) (Inr opt),
        Lib (GetAttr opt ''set_options'') (Inr so),
        Lib (Call so [] [(''maxfun'', VInt 1000), (''factr'', VInt 10), (''iprint'', VInt 10)])
          (Inr sr)]"
    and len1: "py_len singles = Inr ns" and len2: "py_len doubles = Inr nd"
    and amp: "globals k1 ''amplitudes_0'' =
       Some (VList (replicate (nat (ns + nd)) (VFloat (1 / 100000))))"
    and vf1: "globals k1 ''var_form'' = Some vf"
    and vqe1: "globals k1 ''VQE'' = Some vqe"
    and opt1: "globals k1 ''optimizer'' = Some opt"
    by (elim exE conjE) (rule that)
  note call = vqe_call [OF stmt vqe1 vf1 opt1 amp]
  show ?thesis
    apply (rule exI [of _ vf], rule exI [of _ lb], rule exI [of _ vqe], rule exI [of _ singles],
        rule exI [of _ doubles], rule exI [of _ ns], rule exI [of _ nd], rule exI [of _ opt],
        rule exI [of _ so], rule exI [of _ sr])
    apply (intro conjI vf evs len1 len2 amp vf1 call [THEN conjunct1] call [THEN conjunct2])
    done
qed

text \<open>On the scripted H2 run (two single excitations, one double excitation) the seven
  statements and the construction succeed, and the call of \<open>VQE\<close> has the variational
  form of the kernel and an initial point of three elements.\<close>

theorem initial_point_of_vqe_witness:
  "\<exists>k1 k'.
     block (take 7 qse_vqe) demo_runtime h2_before_vqe = (Inr (), k1) \<and>
     (qse_vqe ! 7) demo_runtime k1 = (Inr (), k') \<and>
     globals h2_before_vqe ''var_form'' = Some (VObj 28) \<and>
     globals k1 ''amplitudes_0'' =
       Some (VList [VFloat (1 / 100000), VFloat (1 / 100000), VFloat (1 / 100000)]) \<and>
     events k' = events k1 @
       [Lib (Call (VObj 30) []
          [(''operator'', VObj 25), (''operator_mode'', VStr ''matrix''),
           (''var_form'', VObj 28), (''optimizer'', VObj 31),
           (''initial_point'',
            VList [VFloat (1 / 100000), VFloat (1 / 100000), VFloat (1 / 100000)])])
         (Inr (VObj 33))]"
proof -
  have "\<exists>k1 k'. block (take 7 qse_vqe) demo_runtime h2_before_vqe = (Inr (), k1) \<and>
     (qse_vqe ! 7) demo_runtime k1 = (Inr (), k') \<and>
     events k1 =
       [Lib (ImportFrom ''qiskit_aqua.components.optimizers'' ''L_BFGS_B'') (Inr (VObj 29)),
        Lib (ImportFrom ''qiskit_aqua.algorithms'' ''VQE'') (Inr (VObj 30)),
        Lib (GetAttr (VObj 28) ''_single_excitations'')
          (Inr (VList [VList [VInt 0, VInt 1], VList [VInt 2, VInt 3]])),
        Lib (GetAttr (VObj 28) ''_double_excitations'')
          (Inr (VList [VList [VInt 0, VInt 1, VInt 2, VInt 3]])),
        Lib (Call (VObj 29) [] []) (Inr (VObj 31)),
        Lib (GetAttr (VObj 31) ''set_options'') (Inr (VObj 32)),
        Lib (Call (VObj 32) []
          [(''maxfun'', VInt 1000), (''factr'', VInt 10), (''iprint'', VInt 10)]) (Inr VNone)] \<and>
     globals k1 ''qubitOp'' = Some (VObj 25) \<and>
     globals k' ''vqe_algorithm'' = Some (VObj 33)"
    by (simp add: qse_vqe_def h2_before_vqe_def h2_vqe_answers_def eval_defs)
  then obtain k1 k' where
    before: "block (take 7 qse_vqe) demo_runtime h2_before_vqe = (Inr (), k1)"
    and stmt: "(qse_vqe ! 7) demo_runtime k1 = (Inr (), k')"
    and evs: "events k1 =
       [Lib (ImportFrom ''qiskit_aqua.components.optimizers'' ''L_BFGS_B'') (Inr (VObj 29)),
        Lib (ImportFrom ''qiskit_aqua.algorithms'' ''VQE'') (Inr (VObj 30)),
        Lib (GetAttr (VObj 28) ''_single_excitations'')
          (Inr (VList [VList [VInt 0, VInt 1], VList [VInt 2, VInt 3]])),
        Lib (GetAttr (VObj 28) ''_double_excitations'')
          (Inr (VList [VList [VInt 0, VInt 1, VInt 2, VInt 3]])),
        Lib (Call (VObj 29) [] []) (Inr (VObj 31)),
        Lib (GetAttr (VObj 31) ''set_options'') (Inr (VObj 32)),
        Lib (Call (VObj 32) []
          [(''maxfun'', VInt 1000), (''factr'', VInt 10), (''iprint'', VInt 10)]) (Inr VNone)]"
    and op: "globals k1 ''qubitOp'' = Some (VObj 25)"
    and alg: "globals k' ''vqe_algorithm'' = Some (VObj 33)"
    by (elim exE conjE)
  have start: "events h2_before_vqe = []" "globals h2_before_vqe ''var_form'' = Some (VObj 28)"
    by (simp_all add: h2_before_vqe_def session_def)
  have "globals k1 ''amplitudes_0'' =
       Some (VList [VFloat (1 / 100000), VFloat (1 / 100000), VFloat (1 / 100000)]) \<and>
     events k' = events k1 @
       [Lib (Call (VObj 30) []
          [(''operator'', VObj 25), (''operator_mode'', VStr ''matrix''),
           (''var_form'', VObj 28), (''optimizer'', VObj 31),
           (''initial_point'',
            VList [VFloat (1 / 100000), VFloat (1 / 100000), VFloat (1 / 100000)])])
         (Inr (VObj 33))]"
    using initial_point_of_vqe [OF before stmt] evs op alg start
    by (clarsimp simp: numeral_3_eq_3)
  with before stmt start(2) show ?thesis
    by (intro exI [of _ k1] exI [of _ k']) simp
qed

section \<open>The qubits after routing\<close>


lemma seq_index_in_range:
  "0 \<le> j \<Longrightarrow> j < int (length qs) \<Longrightarrow> seq_index qs j = Inr (qs ! nat j)"
  by (simp add: seq_index_def)

lemma reindex_items:
  assumes qubits: "globals k ''qubits'' = Some (VList qs)"
    and bounds: "\<forall>j \<in> set js. 0 \<le> j \<and> j < int (length qs)"
  shows "comp_items [''i'', ''j'']
           (map (\<lambda>(i, x). VTuple [VInt (int i), x]) (enumerate n (map VInt js)))
           (subscript (name ''qubits'') (name ''j'')) R k =
         (Inr (map (\<lambda>j. qs ! nat j) js), k)"
  using bounds
proof (induction js arbitrary: n)
  case Nil
  show ?case by (simp add: ret_def)
next
  case (Cons j js)
  have elt: "with_targets [''i'', ''j''] (VTuple [VInt (int n), VInt j])
               (subscript (name ''qubits'') (name ''j'')) R k = (Inr (qs ! nat j), k)"
    using qubits Cons.prems
    by (simp add: with_targets_def unpack_def subscript_def bnd_def name_def lift_def
        py_getitem_def seq_index_in_range)
  have rest: "comp_items [''i'', ''j'']
           (map (\<lambda>(i, x). VTuple [VInt (int i), x]) (enumerate (Suc n) (map VInt js)))
           (subscript (name ''qubits'') (name ''j'')) R k =
         (Inr (map (\<lambda>j. qs ! nat j) js), k)"
    using Cons.prems by (intro Cons.IH) simp
  show ?case
    using elt rest by (simp add: bnd_def ret_def)
qed

text \<open>
  Claim C10. The fourth statement of the routing cell is
  \<open>final_qubits = [qubits[j] for i,j in enumerate(qmap[0])]\<close>. When \<open>qubits\<close> is a list
  of nine elements and every item of \<open>qmap[0]\<close> is an integer from 0 to 8, the statement
  raises nothing (every \<open>qubits[j]\<close> is in bounds), requests nothing from the library,
  and binds \<open>final_qubits\<close> to the list that has, at each position of \<open>qmap[0]\<close>, the
  qubit that the item there indexes; so it is as long as \<open>qmap[0]\<close>.
\<close>

theorem final_qubits_in_bounds:
  assumes qubits: "globals k ''qubits'' = Some (VList qs)" and nine: "length qs = 9"
    and qmap: "globals k ''qmap'' = Some qmap"
    and first: "py_getitem qmap (VInt 0) = Inr m" and ints: "py_iter m = Inr (map VInt js)"
    and bounds: "\<forall>j \<in> set js. 0 \<le> j \<and> j \<le> 8"
  shows "(cirq_route ! 3) R k =
           (Inr (), k\<lparr>globals := (globals k)(''final_qubits'' \<mapsto> VList (map (\<lambda>j. qs ! nat j) js))\<rparr>)"
proof -
  have b: "\<forall>j \<in> set js. 0 \<le> j \<and> j < int (length qs)"
    using bounds nine by auto
  have enum: "call_builtin ''enumerate'' [subscript (name ''qmap'') (num 0)] R k =
      (Inr (VList (map (\<lambda>(i, x). VTuple [VInt (int i), x]) (enumerate 0 (map VInt js)))), k)"
    using qmap first ints
    by (simp add: call_builtin_def subscript_def bnd_def name_def literal_def ret_def lift_def
        builtin_def py_enumerate_def)
  show ?thesis
    using enum reindex_items [OF qubits b, of 0 R]
    by (simp add: cirq_route_def assign_def listcomp_def bnd_def lift_def ret_def unpack_def
        bind_name_def)
qed

theorem final_qubits_in_bounds_witness:
  "globals routed_kernel ''qubits'' = Some (VList grid_qubits) \<and> length grid_qubits = 9 \<and>
   globals routed_kernel ''qmap'' = Some routing_maps \<and>
   py_getitem routing_maps (VInt 0) = Inr (VList (map VInt [8, 3, 4, 6, 5, 7, 2, 1, 0])) \<and>
   py_iter (VList (map VInt [8, 3, 4, 6, 5, 7, 2, 1, 0])) = Inr (map VInt [8, 3, 4, 6, 5, 7, 2, 1, 0]) \<and>
   list_all (\<lambda>j. 0 \<le> j \<and> j \<le> 8) [8, 3, 4, 6, 5, 7, 2, 1, 0 :: int] \<and>
   (cirq_route ! 3) demo_runtime routed_kernel =
     (Inr (), routed_kernel\<lparr>globals := (globals routed_kernel)
        (''final_qubits'' \<mapsto> VList (map (\<lambda>j. grid_qubits ! nat j) [8, 3, 4, 6, 5, 7, 2, 1, 0]))\<rparr>)"
proof -
  have h1: "globals routed_kernel ''qubits'' = Some (VList grid_qubits)"
    by (simp add: routed_kernel_def session_def)
  have h2: "length grid_qubits = 9"
    by (simp add: grid_qubits_def)
  have h3: "globals routed_kernel ''qmap'' = Some routing_maps"
    by (simp add: routed_kernel_def session_def)
  have h4: "py_getitem routing_maps (VInt 0) = Inr (VList (map VInt [8, 3, 4, 6, 5, 7, 2, 1, 0]))"
    by (simp add: routing_maps_def py_getitem_def seq_index_def)
  have h5: "py_iter (VList (map VInt [8, 3, 4, 6, 5, 7, 2, 1, 0])) = Inr (map VInt [8, 3, 4, 6, 5, 7, 2, 1, 0])"
    by simp
  have h6: "\<forall>j \<in> set [8, 3, 4, 6, 5, 7, 2, 1, 0 :: int]. 0 \<le> j \<and> j \<le> 8"
    by simp
  have h6': "list_all (\<lambda>j. 0 \<le> j \<and> j \<le> 8) [8, 3, 4, 6, 5, 7, 2, 1, 0 :: int]"
    by simp
  show ?thesis
    by (intro conjI h1 h2 h3 h4 h5 h6' final_qubits_in_bounds [OF h1 h2 h3 h4 h5 h6])
qed

end
